theory Spec2Isabelle
  imports Complex_Main "HOL-Library.Char_ord" "HOL-Library.List_Lexorder" "HOL-Library.Multiset"
    "HOL-Library.Log_Nat"
begin

section \<open>Python values\<close>

text \<open>
  The values the weather tools handle are what \<^verbatim>\<open>response.json()\<close> yields and what
  \<^verbatim>\<open>json.dumps\<close> accepts: \<^verbatim>\<open>None\<close>, booleans, integers, floats, strings, lists and
  dictionaries with string keys.

  \<^item> A Python \<^verbatim>\<open>str\<close> is a \<^typ>\<open>string\<close>; the character with code \<open>n\<close> stands for
    the code point \<open>n\<close>, so strings of code points below 256 are covered, and the order
    of \<^theory_text>\<open>Char_ord\<close> and \<^theory_text>\<open>List_Lexorder\<close> is Python's order on them.
  \<^item> A Python \<^verbatim>\<open>float\<close> is carried as its \<^verbatim>\<open>repr\<close> (\<^verbatim>\<open>15.5\<close>, \<^verbatim>\<open>-0.1278\<close>, \<^verbatim>\<open>nan\<close>):
    no arithmetic is done on payload numbers anywhere in the tools, they are only
    compared with zero, hashed and printed.
  \<^item> A Python \<^verbatim>\<open>dict\<close> is an association list in insertion order; its keys are
    distinct.
\<close>

datatype json =
    JNull
  | JBool bool
  | JInt int
  | JFloat string
  | JStr string
  | JList "json list"
  | JDict "(string \<times> json) list"

type_synonym params = "(string \<times> json) list"

text \<open>The exceptions the tools' own expressions can raise.\<close>

datatype pyerror = TypeError | AttributeError | IndexError | KeyError

text \<open>\<^verbatim>\<open>bool(x)\<close>, as \<^verbatim>\<open>if x:\<close> computes it.\<close>

fun truthy :: "json \<Rightarrow> bool" where
  "truthy JNull = False"
| "truthy (JBool b) = b"
| "truthy (JInt i) = (i \<noteq> 0)"
| "truthy (JFloat r) = (r \<noteq> ''0.0'' \<and> r \<noteq> ''-0.0'')"
| "truthy (JStr s) = (s \<noteq> [])"
| "truthy (JList xs) = (xs \<noteq> [])"
| "truthy (JDict kvs) = (kvs \<noteq> [])"

text \<open>\<^verbatim>\<open>d[k] = v\<close> on a dict: an existing key keeps its place, a new key goes last.\<close>

fun dict_setitem :: "params \<Rightarrow> string \<Rightarrow> json \<Rightarrow> params" where
  "dict_setitem [] k v = [(k, v)]"
| "dict_setitem (p # ps) k v = (if fst p = k then (k, v) # ps else p # dict_setitem ps k v)"

text \<open>
  \<^verbatim>\<open>x[k] = v\<close> with a string \<open>k\<close>: only a dict supports it. A list wants an integer
  index, the other values support no item assignment; both raise \<^verbatim>\<open>TypeError\<close>.
\<close>

fun py_setitem :: "json \<Rightarrow> string \<Rightarrow> json \<Rightarrow> pyerror + json" where
  "py_setitem (JDict d) k v = Inr (JDict (dict_setitem d k v))"
| "py_setitem _ k v = Inl TypeError"

text \<open>\<^verbatim>\<open>x.get(k, default)\<close>: only a dict has the method.\<close>

fun py_get :: "json \<Rightarrow> string \<Rightarrow> json \<Rightarrow> pyerror + json" where
  "py_get (JDict d) k dflt = Inr (case map_of d k of Some v \<Rightarrow> v | None \<Rightarrow> dflt)"
| "py_get _ k dflt = Inl AttributeError"

text \<open>\<^verbatim>\<open>x[0]\<close>. A dict from JSON has string keys only, so the key \<open>0\<close> is never there.\<close>

fun py_getitem0 :: "json \<Rightarrow> pyerror + json" where
  "py_getitem0 (JList []) = Inl IndexError"
| "py_getitem0 (JList (x # xs)) = Inr x"
| "py_getitem0 (JStr []) = Inl IndexError"
| "py_getitem0 (JStr (c # cs)) = Inr (JStr [c])"
| "py_getitem0 (JDict d) = Inl KeyError"
| "py_getitem0 _ = Inl TypeError"

text \<open>\<^verbatim>\<open>for item in x\<close>: the items a loop over \<open>x\<close> sees.\<close>

fun py_iter :: "json \<Rightarrow> pyerror + json list" where
  "py_iter (JList xs) = Inr xs"
| "py_iter (JDict d) = Inr (map (\<lambda>kv. JStr (fst kv)) d)"
| "py_iter (JStr s) = Inr (map (\<lambda>c. JStr [c]) s)"
| "py_iter _ = Inl TypeError"

text \<open>Sequencing: the first exception raised ends the evaluation.\<close>

fun bindE :: "'e + 'a \<Rightarrow> ('a \<Rightarrow> 'e + 'b) \<Rightarrow> 'e + 'b" where
  "bindE (Inl e) f = Inl e"
| "bindE (Inr x) f = f x"

fun sequenceE :: "('e + 'a) list \<Rightarrow> 'e + 'a list" where
  "sequenceE [] = Inr []"
| "sequenceE (Inl e # ms) = Inl e"
| "sequenceE (Inr x # ms) = (case sequenceE ms of Inl e \<Rightarrow> Inl e | Inr xs \<Rightarrow> Inr (x # xs))"

text \<open>
  A dict display \<^verbatim>\<open>{"k1": e1, "k2": e2, ...}\<close> with distinct literal keys: the
  expressions are evaluated left to right, nested displays depth first.
\<close>

definition dict_display :: "(string \<times> (pyerror + json)) list \<Rightarrow> pyerror + json" where
  "dict_display items =
     (case sequenceE (map snd items) of
        Inl e \<Rightarrow> Inl e
      | Inr vs \<Rightarrow> Inr (JDict (zip (map fst items) vs)))"

text \<open>\<^verbatim>\<open>x.get(k1, {}).get(k2)\<close> and \<^verbatim>\<open>x.get(k1, [{}])[0].get(k2)\<close>.\<close>

definition get2 :: "json \<Rightarrow> string \<Rightarrow> string \<Rightarrow> pyerror + json" where
  "get2 x k1 k2 = bindE (py_get x k1 (JDict [])) (\<lambda>m. py_get m k2 JNull)"

definition get_first :: "json \<Rightarrow> string \<Rightarrow> string \<Rightarrow> pyerror + json" where
  "get_first x k1 k2 =
     bindE (py_get x k1 (JList [JDict []])) (\<lambda>l. bindE (py_getitem0 l) (\<lambda>m. py_get m k2 JNull))"

section \<open>\<^verbatim>\<open>json.dumps\<close> and the cache key\<close>

text \<open>\<^verbatim>\<open>str(i)\<close> of an integer: its decimal digits.\<close>

fun digits :: "nat \<Rightarrow> string" where
  "digits n =
     (if n < 10 then [''0123456789'' ! n] else digits (n div 10) @ [''0123456789'' ! (n mod 10)])"

declare digits.simps [simp del]

definition str_int :: "int \<Rightarrow> string" where
  "str_int i = (if i < 0 then CHR ''-'' # digits (nat (- i)) else digits (nat i))"

definition hexdigit :: "nat \<Rightarrow> char" where
  "hexdigit n = ''0123456789abcdef'' ! n"

text \<open>
  The string encoder of \<^verbatim>\<open>json.dumps\<close> with \<^verbatim>\<open>ensure_ascii=True\<close> (the default):
  the quote and the backslash are escaped, the five control characters with a short
  form get it, printable ASCII stays, everything else becomes \<^verbatim>\<open>\u00xx\<close>.
\<close>

definition escape_char :: "char \<Rightarrow> string" where
  "escape_char c =
     (if c = CHR 0x22 then [CHR 0x5C, CHR 0x22]
      else if c = CHR 0x5C then [CHR 0x5C, CHR 0x5C]
      else if c = CHR 0x0A then [CHR 0x5C, CHR ''n'']
      else if c = CHR 0x0D then [CHR 0x5C, CHR ''r'']
      else if c = CHR 0x09 then [CHR 0x5C, CHR ''t'']
      else if c = CHR 0x08 then [CHR 0x5C, CHR ''b'']
      else if c = CHR 0x0C then [CHR 0x5C, CHR ''f'']
      else if 32 \<le> (of_char c :: nat) \<and> (of_char c :: nat) \<le> 126 then [c]
      else [CHR 0x5C, CHR ''u'', CHR ''0'', CHR ''0'',
            hexdigit ((of_char c :: nat) div 16), hexdigit ((of_char c :: nat) mod 16)])"

definition encode_str :: "string \<Rightarrow> string" where
  "encode_str s = CHR 0x22 # concat (map escape_char s) @ [CHR 0x22]"

text \<open>\<^verbatim>\<open>sep.join(parts)\<close>.\<close>

fun join :: "string \<Rightarrow> string list \<Rightarrow> string" where
  "join sep [] = []"
| "join sep [x] = x"
| "join sep (x # y # ys) = x @ sep @ join sep (y # ys)"

text \<open>A float prints as its \<^verbatim>\<open>repr\<close>, but for the three values JSON has no literal for.\<close>

definition float_str :: "string \<Rightarrow> string" where
  "float_str r =
     (if r = ''nan'' then ''NaN'' else if r = ''inf'' then ''Infinity''
      else if r = ''-inf'' then ''-Infinity'' else r)"

text \<open>
  \<^verbatim>\<open>json.dumps(v, sort_keys=sk)\<close> with the default separators \<^verbatim>\<open>", "\<close> and \<^verbatim>\<open>": "\<close>.
  With \<^verbatim>\<open>sort_keys\<close> the items of every dict, nested ones too, are written in the order
  of their keys.
\<close>

function (sequential) json_dumps :: "bool \<Rightarrow> json \<Rightarrow> string" where
  "json_dumps sk JNull = ''null''"
| "json_dumps sk (JBool b) = (if b then ''true'' else ''false'')"
| "json_dumps sk (JInt i) = str_int i"
| "json_dumps sk (JFloat r) = float_str r"
| "json_dumps sk (JStr s) = encode_str s"
| "json_dumps sk (JList xs) = ''['' @ join '', '' (map (json_dumps sk) xs) @ '']''"
| "json_dumps sk (JDict kvs) =
     ''{'' @ join '', '' (map (\<lambda>kv. encode_str (fst kv) @ '': '' @ json_dumps sk (snd kv))
                           (if sk then sort_key fst kvs else kvs)) @ ''}''"
  by pat_completeness auto
termination
proof (relation "measure (\<lambda>(sk, v). size v)", goal_cases)
  case 1
  show ?case by simp
next
  case (2 sk xs x)
  then show ?case by (simp add: size_list_estimation' less_Suc_eq_le)
next
  case (3 sk kvs kv)
  then have "kv \<in> set kvs" by (auto split: if_splits)
  then have "size_prod (\<lambda>_. 0) size kv \<le> size_list (size_prod (\<lambda>_. 0) size) kvs"
    by (rule size_list_estimation') simp
  moreover have "size (snd kv) < size_prod (\<lambda>_. 0) size kv"
    by (cases kv) simp
  ultimately show ?case by simp
qed

text \<open>
  \<^verbatim>\<open>get_cache_key\<close> of \<^verbatim>\<open>tools/common.py\<close>:
  \<^verbatim>\<open>f"{endpoint}:{json.dumps(params, sort_keys=True)}"\<close>. The methods
  \<^verbatim>\<open>_get_cache_key\<close> of the three server classes have the same body.
\<close>

definition get_cache_key :: "string \<Rightarrow> params \<Rightarrow> string" where
  "get_cache_key endpoint params = endpoint @ '':'' @ json_dumps True (JDict params)"

section \<open>The cache\<close>

text \<open>
  The module-level state of \<^verbatim>\<open>tools/common.py\<close> and what the statements below observe of the
  process around it.

  \<^item> \<^verbatim>\<open>_cache\<close> maps a key to an entry \<^verbatim>\<open>{"data": ..., "timestamp": ...}\<close>. The entry
    holds a reference to the payload object, not a copy: the payload lives in \<open>heap\<close>
    under an address, and the entry, the variable \<^verbatim>\<open>cached\<close> and a returned
    \<^verbatim>\<open>{"success": True, "data": ...}\<close> all hold that address.
  \<^item> \<open>next_addr\<close> is the address the next new object gets.
  \<^item> \<open>sent\<close> lists the upstream requests made so far (the calls of \<^verbatim>\<open>client.get\<close>),
    each with its URL and query parameters.

  A time is a value of \<^verbatim>\<open>datetime.now().timestamp()\<close>, in seconds: a double, taken as
  the rational number it stands for. The age of an entry is the difference of two
  times as the code computes it, a subtraction of doubles (\<open>double_sub\<close> below).
\<close>

type_synonym addr = nat
type_synonym time = rat

record cache_entry =
  data :: addr
  timestamp :: time

record state =
  cache :: "string \<Rightarrow> cache_entry option"
  heap :: "addr \<Rightarrow> json"
  next_addr :: addr
  sent :: "(string \<times> params) list"

definition BASE_URL :: string where
  "BASE_URL = ''https://api.openweathermap.org/data/2.5''"

definition GEO_URL :: string where
  "GEO_URL = ''http://api.openweathermap.org/geo/1.0''"

definition CACHE_TTL :: time where
  "CACHE_TTL = 600"

text \<open>
  The subtraction of two doubles, as \<^verbatim>\<open>get_cached\<close> does it: the exact
  difference rounded to the nearest double, ties to the even significand (IEEE 754
  binary64: 53 significant bits, least exponent -1022). \<open>floor_log2 x\<close> is the integer
  \<open>e\<close> with \<open>2 ^ e \<le> x < 2 ^ (e + 1)\<close> for a positive \<open>x\<close>. Overflow to infinity is
  left out: no difference of two clock readings is that large.
\<close>

definition floor_log2 :: "rat \<Rightarrow> int" where
  "floor_log2 x = (if 1 \<le> x then bitlen \<lfloor>x\<rfloor> - 1 else - bitlen (\<lceil>1 / x\<rceil> - 1))"

definition round_half_even :: "rat \<Rightarrow> int" where
  "round_half_even y =
     (let n = \<lfloor>y\<rfloor>; r = y - of_int n
      in if r < 1 / 2 then n else if 1 / 2 < r then n + 1 else if even n then n else n + 1)"

definition double_round :: "rat \<Rightarrow> rat" where
  "double_round x =
     (if x = 0 then 0
      else let e = max (floor_log2 \<bar>x\<bar>) (- 1022);
               u = 2 powi (e - 52)
           in sgn x * of_int (round_half_even (\<bar>x\<bar> / u)) * u)"

definition double_sub :: "time \<Rightarrow> time \<Rightarrow> time" where
  "double_sub a b = double_round (a - b)"

text \<open>
  \<^verbatim>\<open>get_cached(key)\<close>; \<open>now\<close> is what \<^verbatim>\<open>datetime.now().timestamp()\<close> returns when the
  function reads it. The result is \<^verbatim>\<open>None\<close> or the entry's payload object.
\<close>

definition get_cached :: "time \<Rightarrow> string \<Rightarrow> state \<Rightarrow> addr option \<times> state" where
  "get_cached now key st =
     (case cache st key of
        None \<Rightarrow> (None, st)
      | Some cached \<Rightarrow>
          if double_sub now (timestamp cached) < CACHE_TTL then (Some (data cached), st)
          else (None, st\<lparr>cache := (cache st)(key := None)\<rparr>))"

text \<open>\<^verbatim>\<open>set_cache(key, data)\<close>, with \<open>now\<close> as above and \<open>a\<close> the payload object.\<close>

definition set_cache :: "time \<Rightarrow> string \<Rightarrow> addr \<Rightarrow> state \<Rightarrow> state" where
  "set_cache now key a st =
     st\<lparr>cache := (cache st)(key \<mapsto> \<lparr>data = a, timestamp = now\<rparr>)\<rparr>"

section \<open>The request\<close>

text \<open>
  What the upstream call does, once made: \<^verbatim>\<open>client.get\<close> answers with a status code,
  and \<^verbatim>\<open>response.json()\<close> then yields a value or raises (\<open>Inl\<close>, with the exception's
  text); or the call raises \<^verbatim>\<open>httpx.TimeoutException\<close>, another
  \<^verbatim>\<open>httpx.RequestError\<close>, or some other \<^verbatim>\<open>Exception\<close>, each with its text.
\<close>

datatype reply =
    Response int "string + json"
  | TimeoutException string
  | RequestError string
  | OtherException string

text \<open>
  The surroundings of one call of \<^verbatim>\<open>make_weather_request\<close>: the clock as
  \<^verbatim>\<open>get_cached\<close> reads it, the upstream's reply, the clock as \<^verbatim>\<open>set_cache\<close> reads it.
\<close>

record world =
  t_lookup :: time
  upstream :: reply
  t_store :: time

text \<open>
  The process: \<^verbatim>\<open>API_KEY\<close>, read from the environment once at import, and
  \<^verbatim>\<open>datetime.fromtimestamp(x).isoformat()\<close>, which depends on the local time zone and
  raises on a value that is no timestamp.
\<close>

record env =
  API_KEY :: string
  fromtimestamp_isoformat :: "json \<Rightarrow> pyerror + string"

text \<open>
  The dict \<^verbatim>\<open>make_weather_request\<close> returns: \<^verbatim>\<open>{"success": True, "data": d}\<close> with
  the payload object \<open>d\<close>, or \<^verbatim>\<open>{"success": False, "error": msg}\<close>, with a
  \<^verbatim>\<open>"status_code"\<close> where the upstream answered.
\<close>

datatype result = Success addr | Failure string "int option"

definition new_object :: "json \<Rightarrow> state \<Rightarrow> addr \<times> state" where
  "new_object v st =
     (next_addr st, st\<lparr>heap := (heap st)(next_addr st := v), next_addr := Suc (next_addr st)\<rparr>)"

text \<open>
  \<^verbatim>\<open>make_weather_request(endpoint, params)\<close>. The caller's \<^verbatim>\<open>params\<close> dict gets the
  \<^verbatim>\<open>appid\<close> entry after the key is computed; no caller reads it again, so only the
  request carries it here. The client itself (\<^verbatim>\<open>httpx.AsyncClient()\<close>) is taken to open
  and close without raising. A call runs from start to end on the state it is given:
  no other request is interleaved while it awaits the upstream.
\<close>

definition make_weather_request ::
  "env \<Rightarrow> world \<Rightarrow> string \<Rightarrow> params \<Rightarrow> state \<Rightarrow> (pyerror + result) \<times> state" where
  "make_weather_request e w endpoint params st =
     (if API_KEY e = [] then
        (Inr (Failure ''API key not configured. Please set OPENWEATHER_API_KEY environment variable.'' None), st)
      else
        let cache_key = get_cache_key endpoint params;
            (cached, st1) = get_cached (t_lookup w) cache_key st
        in
          if (case cached of None \<Rightarrow> False | Some a \<Rightarrow> truthy (heap st1 a)) then
            (case py_setitem (heap st1 (the cached)) ''_from_cache'' (JBool True) of
               Inl err \<Rightarrow> (Inl err, st1)
             | Inr v \<Rightarrow> (Inr (Success (the cached)), st1\<lparr>heap := (heap st1)(the cached := v)\<rparr>))
          else
            let st2 = st1\<lparr>sent := sent st1 @ [(endpoint, dict_setitem params ''appid'' (JStr (API_KEY e)))]\<rparr>
            in
              (case upstream w of
                 Response status_code body \<Rightarrow>
                   if status_code = 200 then
                     (case body of
                        Inl msg \<Rightarrow> (Inr (Failure (''Unexpected error: '' @ msg) None), st2)
                      | Inr v \<Rightarrow>
                          let (a, st3) = new_object v st2
                          in (Inr (Success a), set_cache (t_store w) cache_key a st3))
                   else if status_code = 401 then (Inr (Failure ''Invalid API key'' (Some 401)), st2)
                   else if status_code = 404 then (Inr (Failure ''Location not found'' (Some 404)), st2)
                   else (Inr (Failure (''API error: '' @ str_int status_code) (Some status_code)), st2)
               | TimeoutException msg \<Rightarrow> (Inr (Failure ''Request timed out'' None), st2)
               | RequestError msg \<Rightarrow> (Inr (Failure (''Request failed: '' @ msg) None), st2)
               | OtherException msg \<Rightarrow> (Inr (Failure (''Unexpected error: '' @ msg) None), st2)))"

text \<open>A failure result as the dict it is.\<close>

definition failure_dict :: "string \<Rightarrow> int option \<Rightarrow> json" where
  "failure_dict msg sc =
     JDict ([(''success'', JBool False), (''error'', JStr msg)] @
            (case sc of None \<Rightarrow> [] | Some n \<Rightarrow> [(''status_code'', JInt n)]))"

section \<open>The tools\<close>

text \<open>
  A tool returns a dict or raises; it changes the state only through
  \<^verbatim>\<open>make_weather_request\<close>. The tool's arguments arrive with the types its
  signature declares (the registry validates them).
\<close>

definition timestamp_iso :: "env \<Rightarrow> json \<Rightarrow> pyerror + json" where
  "timestamp_iso e x = bindE (fromtimestamp_isoformat e x) (\<lambda>s. Inr (JStr s))"

text \<open>\<^verbatim>\<open>get_current_weather(location, units)\<close> of \<^verbatim>\<open>tools/get_current_weather.py\<close>.\<close>

definition get_current_weather ::
  "env \<Rightarrow> world \<Rightarrow> string \<Rightarrow> string \<Rightarrow> state \<Rightarrow> (pyerror + json) \<times> state" where
  "get_current_weather e w location units st =
     (let endpoint = BASE_URL @ ''/weather'';
          params = [(''q'', JStr location), (''units'', JStr units)]
      in case make_weather_request e w endpoint params st of
           (Inl err, st') \<Rightarrow> (Inl err, st')
         | (Inr (Failure msg sc), st') \<Rightarrow> (Inr (failure_dict msg sc), st')
         | (Inr (Success a), st') \<Rightarrow>
             (let data = heap st' a
              in (dict_display
                    [(''success'', Inr (JBool True)),
                     (''location'', dict_display
                        [(''name'', py_get data ''name'' JNull),
                         (''country'', get2 data ''sys'' ''country''),
                         (''coordinates'', dict_display
                            [(''latitude'', get2 data ''coord'' ''lat''),
                             (''longitude'', get2 data ''coord'' ''lon'')])]),
                     (''current'', dict_display
                        [(''temperature'', get2 data ''main'' ''temp''),
                         (''feels_like'', get2 data ''main'' ''feels_like''),
                         (''temp_min'', get2 data ''main'' ''temp_min''),
                         (''temp_max'', get2 data ''main'' ''temp_max''),
                         (''pressure'', get2 data ''main'' ''pressure''),
                         (''humidity'', get2 data ''main'' ''humidity''),
                         (''description'', get_first data ''weather'' ''description''),
                         (''icon'', get_first data ''weather'' ''icon''),
                         (''wind'', dict_display
                            [(''speed'', get2 data ''wind'' ''speed''),
                             (''direction'', get2 data ''wind'' ''deg'')]),
                         (''clouds'', get2 data ''clouds'' ''all''),
                         (''visibility'', py_get data ''visibility'' JNull)]),
                     (''timestamp'', bindE (py_get data ''dt'' (JInt 0)) (timestamp_iso e)),
                     (''sunrise'',
                        bindE (py_get data ''sys'' (JDict []))
                          (\<lambda>s. bindE (py_get s ''sunrise'' (JInt 0)) (timestamp_iso e))),
                     (''sunset'',
                        bindE (py_get data ''sys'' (JDict []))
                          (\<lambda>s. bindE (py_get s ''sunset'' (JInt 0)) (timestamp_iso e))),
                     (''units'', Inr (JStr units))],
                  st')))"

text \<open>\<^verbatim>\<open>get_forecast(location, units, days)\<close> of \<^verbatim>\<open>tools/get_forecast.py\<close>.\<close>

definition get_forecast ::
  "env \<Rightarrow> world \<Rightarrow> string \<Rightarrow> string \<Rightarrow> int \<Rightarrow> state \<Rightarrow> (pyerror + json) \<times> state" where
  "get_forecast e w location units days st =
     (let endpoint = BASE_URL @ ''/forecast'';
          params = [(''q'', JStr location), (''units'', JStr units), (''cnt'', JInt (min days 5 * 8))]
      in case make_weather_request e w endpoint params st of
           (Inl err, st') \<Rightarrow> (Inl err, st')
         | (Inr (Failure msg sc), st') \<Rightarrow> (Inr (failure_dict msg sc), st')
         | (Inr (Success a), st') \<Rightarrow>
             (let data = heap st' a
              in (bindE (bindE (py_get data ''list'' (JList [])) py_iter)
                    (\<lambda>items.
                       bindE (sequenceE (map (\<lambda>item. dict_display
                                [(''datetime'', bindE (py_get item ''dt'' (JInt 0)) (timestamp_iso e)),
                                 (''temperature'', get2 item ''main'' ''temp''),
                                 (''feels_like'', get2 item ''main'' ''feels_like''),
                                 (''temp_min'', get2 item ''main'' ''temp_min''),
                                 (''temp_max'', get2 item ''main'' ''temp_max''),
                                 (''pressure'', get2 item ''main'' ''pressure''),
                                 (''humidity'', get2 item ''main'' ''humidity''),
                                 (''description'', get_first item ''weather'' ''description''),
                                 (''icon'', get_first item ''weather'' ''icon''),
                                 (''wind_speed'', get2 item ''wind'' ''speed''),
                                 (''clouds'', get2 item ''clouds'' ''all''),
                                 (''pop'', py_get item ''pop'' (JInt 0))]) items))
                         (\<lambda>forecasts. dict_display
                            [(''success'', Inr (JBool True)),
                             (''location'', dict_display
                                [(''name'', get2 data ''city'' ''name''),
                                 (''country'', get2 data ''city'' ''country''),
                                 (''coordinates'', dict_display
                                    [(''latitude'',
                                        bindE (py_get data ''city'' (JDict []))
                                          (\<lambda>c. get2 c ''coord'' ''lat'')),
                                     (''longitude'',
                                        bindE (py_get data ''city'' (JDict []))
                                          (\<lambda>c. get2 c ''coord'' ''lon''))])]),
                             (''forecast'', Inr (JList forecasts)),
                             (''units'', Inr (JStr units))])),
                  st')))"

text \<open>\<^verbatim>\<open>search_location(query, limit)\<close> of \<^verbatim>\<open>tools/search_location.py\<close>.\<close>

definition search_location ::
  "env \<Rightarrow> world \<Rightarrow> string \<Rightarrow> int \<Rightarrow> state \<Rightarrow> (pyerror + json) \<times> state" where
  "search_location e w query limit st =
     (let endpoint = GEO_URL @ ''/direct'';
          params = [(''q'', JStr query), (''limit'', JInt (min limit 10))]
      in case make_weather_request e w endpoint params st of
           (Inl err, st') \<Rightarrow> (Inl err, st')
         | (Inr (Failure msg sc), st') \<Rightarrow> (Inr (failure_dict msg sc), st')
         | (Inr (Success a), st') \<Rightarrow>
             (let data = heap st' a
              in (bindE (py_iter data)
                    (\<lambda>items.
                       bindE (sequenceE (map (\<lambda>item. dict_display
                                [(''name'', py_get item ''name'' JNull),
                                 (''local_names'', py_get item ''local_names'' (JDict [])),
                                 (''country'', py_get item ''country'' JNull),
                                 (''state'', py_get item ''state'' JNull),
                                 (''coordinates'', dict_display
                                    [(''latitude'', py_get item ''lat'' JNull),
                                     (''longitude'', py_get item ''lon'' JNull)])]) items))
                         (\<lambda>locations. dict_display
                            [(''success'', Inr (JBool True)),
                             (''query'', Inr (JStr query)),
                             (''results'', Inr (JList locations)),
                             (''count'', Inr (JInt (int (length locations))))])),
                  st')))"

text \<open>
  \<^verbatim>\<open>get_weather_by_coordinates(latitude, longitude, units)\<close> of
  \<^verbatim>\<open>tools/get_weather_by_coordinates.py\<close>; the two floats by their \<^verbatim>\<open>repr\<close>.
\<close>

definition get_weather_by_coordinates ::
  "env \<Rightarrow> world \<Rightarrow> string \<Rightarrow> string \<Rightarrow> string \<Rightarrow> state \<Rightarrow> (pyerror + json) \<times> state" where
  "get_weather_by_coordinates e w latitude longitude units st =
     (let endpoint = BASE_URL @ ''/weather'';
          params = [(''lat'', JFloat latitude), (''lon'', JFloat longitude), (''units'', JStr units)]
      in case make_weather_request e w endpoint params st of
           (Inl err, st') \<Rightarrow> (Inl err, st')
         | (Inr (Failure msg sc), st') \<Rightarrow> (Inr (failure_dict msg sc), st')
         | (Inr (Success a), st') \<Rightarrow>
             (let data = heap st' a
              in (dict_display
                    [(''success'', Inr (JBool True)),
                     (''location'', dict_display
                        [(''name'', py_get data ''name'' JNull),
                         (''country'', get2 data ''sys'' ''country''),
                         (''coordinates'', dict_display
                            [(''latitude'', Inr (JFloat latitude)),
                             (''longitude'', Inr (JFloat longitude))])]),
                     (''current'', dict_display
                        [(''temperature'', get2 data ''main'' ''temp''),
                         (''feels_like'', get2 data ''main'' ''feels_like''),
                         (''humidity'', get2 data ''main'' ''humidity''),
                         (''pressure'', get2 data ''main'' ''pressure''),
                         (''description'', get_first data ''weather'' ''description''),
                         (''wind_speed'', get2 data ''wind'' ''speed''),
                         (''clouds'', get2 data ''clouds'' ''all'')]),
                     (''timestamp'', bindE (py_get data ''dt'' (JInt 0)) (timestamp_iso e)),
                     (''units'', Inr (JStr units))],
                  st')))"

text \<open>
  \<^verbatim>\<open>aqi_levels.get(x, "Unknown")\<close> for the dict with the keys 1 to 5: \<^verbatim>\<open>True\<close> and the
  floats \<^verbatim>\<open>1.0\<close> to \<^verbatim>\<open>5.0\<close> equal (and hash as) the integers, a list or a dict cannot
  be hashed.
\<close>

definition aqi_level_name :: "int \<Rightarrow> json" where
  "aqi_level_name n =
     (if n = 1 then JStr ''Good'' else if n = 2 then JStr ''Fair''
      else if n = 3 then JStr ''Moderate'' else if n = 4 then JStr ''Poor''
      else if n = 5 then JStr ''Very Poor'' else JStr ''Unknown'')"

fun aqi_levels_get :: "json \<Rightarrow> pyerror + json" where
  "aqi_levels_get (JInt n) = Inr (aqi_level_name n)"
| "aqi_levels_get (JBool b) = Inr (aqi_level_name (if b then 1 else 0))"
| "aqi_levels_get (JFloat r) =
     Inr (if r = ''1.0'' then aqi_level_name 1 else if r = ''2.0'' then aqi_level_name 2
          else if r = ''3.0'' then aqi_level_name 3 else if r = ''4.0'' then aqi_level_name 4
          else if r = ''5.0'' then aqi_level_name 5 else JStr ''Unknown'')"
| "aqi_levels_get (JList xs) = Inl TypeError"
| "aqi_levels_get (JDict d) = Inl TypeError"
| "aqi_levels_get _ = Inr (JStr ''Unknown'')"

text \<open>\<^verbatim>\<open>get_air_quality(latitude, longitude)\<close> of \<^verbatim>\<open>tools/get_air_quality.py\<close>.\<close>

definition get_air_quality ::
  "env \<Rightarrow> world \<Rightarrow> string \<Rightarrow> string \<Rightarrow> state \<Rightarrow> (pyerror + json) \<times> state" where
  "get_air_quality e w latitude longitude st =
     (let endpoint = BASE_URL @ ''/air_pollution'';
          params = [(''lat'', JFloat latitude), (''lon'', JFloat longitude)]
      in case make_weather_request e w endpoint params st of
           (Inl err, st') \<Rightarrow> (Inl err, st')
         | (Inr (Failure msg sc), st') \<Rightarrow> (Inr (failure_dict msg sc), st')
         | (Inr (Success a), st') \<Rightarrow>
             (let data = heap st' a
              in (bindE (bindE (py_get data ''list'' (JList [JDict []])) py_getitem0)
                    (\<lambda>air_data. dict_display
                       [(''success'', Inr (JBool True)),
                        (''coordinates'', dict_display
                           [(''latitude'', Inr (JFloat latitude)),
                            (''longitude'', Inr (JFloat longitude))]),
                        (''air_quality_index'', get2 air_data ''main'' ''aqi''),
                        (''aqi_level'',
                           bindE (bindE (py_get air_data ''main'' (JDict []))
                                    (\<lambda>m. py_get m ''aqi'' (JInt 0)))
                             aqi_levels_get),
                        (''components'', py_get air_data ''components'' (JDict [])),
                        (''timestamp'', bindE (py_get air_data ''dt'' (JInt 0)) (timestamp_iso e))]),
                  st')))"

text \<open>
  The loop of \<^verbatim>\<open>compare_weather\<close>: one request per location, in order; \<open>ws i\<close> is the
  world of the request for the location at position \<open>i\<close>. A failed request adds an
  entry with the location and the error, and the loop goes on.
\<close>

fun compare_loop ::
  "env \<Rightarrow> (nat \<Rightarrow> world) \<Rightarrow> string \<Rightarrow> nat \<Rightarrow> string list \<Rightarrow> json list \<Rightarrow> state
   \<Rightarrow> (pyerror + json list) \<times> state" where
  "compare_loop e ws units i [] comparisons st = (Inr comparisons, st)"
| "compare_loop e ws units i (location # rest) comparisons st =
     (let endpoint = BASE_URL @ ''/weather'';
          params = [(''q'', JStr location), (''units'', JStr units)]
      in case make_weather_request e (ws i) endpoint params st of
           (Inl err, st') \<Rightarrow> (Inl err, st')
         | (Inr (Failure msg sc), st') \<Rightarrow>
             compare_loop e ws units (Suc i) rest
               (comparisons @ [JDict [(''location'', JStr location), (''error'', JStr msg)]]) st'
         | (Inr (Success a), st') \<Rightarrow>
             (let data = heap st' a
              in case dict_display
                    [(''location'', dict_display
                        [(''name'', py_get data ''name'' JNull),
                         (''country'', get2 data ''sys'' ''country'')]),
                     (''current'', dict_display
                        [(''temperature'', get2 data ''main'' ''temp''),
                         (''feels_like'', get2 data ''main'' ''feels_like''),
                         (''humidity'', get2 data ''main'' ''humidity''),
                         (''description'', get_first data ''weather'' ''description''),
                         (''wind_speed'', get2 data ''wind'' ''speed'')])] of
                   Inl err \<Rightarrow> (Inl err, st')
                 | Inr entry \<Rightarrow>
                     compare_loop e ws units (Suc i) rest (comparisons @ [entry]) st'))"

text \<open>
  \<^verbatim>\<open>compare_weather(locations, units)\<close> of \<^verbatim>\<open>tools/compare_weather.py\<close>;
  \<open>comparison_time\<close> is what \<^verbatim>\<open>datetime.now().isoformat()\<close> returns at the end.
\<close>

definition compare_weather ::
  "env \<Rightarrow> (nat \<Rightarrow> world) \<Rightarrow> string \<Rightarrow> string list \<Rightarrow> string \<Rightarrow> state
   \<Rightarrow> (pyerror + json) \<times> state" where
  "compare_weather e ws comparison_time locations units st =
     (if length locations < 2 then
        (Inr (failure_dict ''Please provide at least 2 locations to compare'' None), st)
      else if length locations > 5 then
        (Inr (failure_dict ''Maximum 5 locations allowed for comparison'' None), st)
      else
        case compare_loop e ws units 0 locations [] st of
          (Inl err, st') \<Rightarrow> (Inl err, st')
        | (Inr comparisons, st') \<Rightarrow>
            (Inr (JDict [(''success'', JBool True),
                         (''locations'', JList comparisons),
                         (''units'', JStr units),
                         (''comparison_time'', JStr comparison_time)]),
             st'))"

text \<open>
  The tools \<^verbatim>\<open>register_all_tools\<close> registers, each call with its arguments, and the
  call of one of them.
\<close>

datatype tool_call =
    GetCurrentWeather string string
  | GetForecast string string int
  | SearchLocation string int
  | GetWeatherByCoordinates string string string
  | GetAirQuality string string
  | CompareWeather "string list" string

fun call_tool ::
  "env \<Rightarrow> (nat \<Rightarrow> world) \<Rightarrow> string \<Rightarrow> tool_call \<Rightarrow> state \<Rightarrow> (pyerror + json) \<times> state" where
  "call_tool e ws ct (GetCurrentWeather location units) st = get_current_weather e (ws 0) location units st"
| "call_tool e ws ct (GetForecast location units days) st = get_forecast e (ws 0) location units days st"
| "call_tool e ws ct (SearchLocation query limit) st = search_location e (ws 0) query limit st"
| "call_tool e ws ct (GetWeatherByCoordinates latitude longitude units) st =
     get_weather_by_coordinates e (ws 0) latitude longitude units st"
| "call_tool e ws ct (GetAirQuality latitude longitude) st = get_air_quality e (ws 0) latitude longitude st"
| "call_tool e ws ct (CompareWeather locations units) st = compare_weather e ws ct locations units st"

section \<open>Reading the model\<close>

text \<open>
  Predicates and fixtures the statements below use. An entry is fresh when its age is
  below the TTL; \<^verbatim>\<open>make_weather_request\<close> takes the cached branch (\<^verbatim>\<open>if cached:\<close>) when
  the key has a fresh entry whose payload is truthy.
\<close>

definition cache_fresh :: "time \<Rightarrow> string \<Rightarrow> state \<Rightarrow> bool" where
  "cache_fresh now key st =
     (case cache st key of
        None \<Rightarrow> False
      | Some c \<Rightarrow> double_sub now (timestamp c) < CACHE_TTL)"

definition cache_hit :: "time \<Rightarrow> string \<Rightarrow> state \<Rightarrow> bool" where
  "cache_hit now key st =
     (case cache st key of
        None \<Rightarrow> False
      | Some c \<Rightarrow> double_sub now (timestamp c) < CACHE_TTL \<and> truthy (heap st (data c)))"

text \<open>The replies that are no 200 with a body that parses.\<close>

fun upstream_failed :: "reply \<Rightarrow> bool" where
  "upstream_failed (Response status_code body) = (status_code \<noteq> 200 \<or> isl body)"
| "upstream_failed _ = True"

text \<open>A run of requests, each in its own surroundings.\<close>

fun run_requests :: "(env \<times> world \<times> string \<times> params) list \<Rightarrow> state \<Rightarrow> state" where
  "run_requests [] st = st"
| "run_requests ((e, w, endpoint, params) # calls) st =
     run_requests calls (snd (make_weather_request e w endpoint params st))"

text \<open>The state at process start: \<^verbatim>\<open>_cache = {}\<close>, nothing allocated, nothing sent.\<close>

definition initial_state :: state where
  "initial_state = \<lparr>cache = Map.empty, heap = (\<lambda>a. JNull), next_addr = 0, sent = []\<rparr>"

text \<open>A process with a key and one without; the stand-in for the time zone's
  conversion prints the number it is given.\<close>

definition sample_isoformat :: "json \<Rightarrow> pyerror + string" where
  "sample_isoformat x =
     (case x of JInt n \<Rightarrow> Inr (str_int n) | JFloat r \<Rightarrow> Inr r | _ \<Rightarrow> Inl TypeError)"

definition env_key :: env where
  "env_key = \<lparr>API_KEY = ''test_key'', fromtimestamp_isoformat = sample_isoformat\<rparr>"

definition env_nokey :: env where
  "env_nokey = \<lparr>API_KEY = [], fromtimestamp_isoformat = sample_isoformat\<rparr>"

text \<open>A request, a world whose upstream times out, a state whose entry is stale by then.\<close>

definition sample_endpoint :: string where
  "sample_endpoint = BASE_URL @ ''/weather''"

definition sample_params :: params where
  "sample_params = [(''q'', JStr ''London,UK''), (''units'', JStr ''metric'')]"

definition world_timeout :: world where
  "world_timeout = \<lparr>t_lookup = 1000, upstream = TimeoutException ''timed out'', t_store = 1000\<rparr>"

definition stale_state :: state where
  "stale_state = set_cache 0 (get_cache_key sample_endpoint sample_params) 0 initial_state"

text \<open>
  The payload of the test suite's London fixture, two worlds whose upstream answers with
  it, and the state after the sample request has fetched it.
\<close>

definition london_payload :: json where
  "london_payload =
     JDict [(''name'', JStr ''London''),
            (''sys'', JDict [(''country'', JStr ''GB''), (''sunrise'', JInt 1697440920),
                             (''sunset'', JInt 1697480100)]),
            (''coord'', JDict [(''lat'', JFloat ''51.5074''), (''lon'', JFloat ''-0.1278'')]),
            (''main'', JDict [(''temp'', JFloat ''15.5''), (''feels_like'', JFloat ''14.2''),
                              (''temp_min'', JFloat ''13.0''), (''temp_max'', JFloat ''17.0''),
                              (''pressure'', JInt 1013), (''humidity'', JInt 72)]),
            (''weather'', JList [JDict [(''description'', JStr ''partly cloudy''),
                                        (''icon'', JStr ''02d'')]]),
            (''wind'', JDict [(''speed'', JFloat ''5.2''), (''deg'', JInt 230)]),
            (''clouds'', JDict [(''all'', JInt 40)]),
            (''visibility'', JInt 10000),
            (''dt'', JInt 1697450000)]"

definition world_london :: world where
  "world_london = \<lparr>t_lookup = 1000, upstream = Response 200 (Inr london_payload), t_store = 1001\<rparr>"

definition world_later :: world where
  "world_later = \<lparr>t_lookup = 1300, upstream = Response 200 (Inr london_payload), t_store = 1301\<rparr>"

definition london_state :: state where
  "london_state = snd (make_weather_request env_key world_london sample_endpoint sample_params initial_state)"

text \<open>
  A location search whose upstream answers 200 with the given payload, looked up at
  time \<open>t\<close> and stored a second later; the answer of the test suite's search fixture.
\<close>

definition search_endpoint :: string where
  "search_endpoint = GEO_URL @ ''/direct''"

definition search_params :: params where
  "search_params = [(''q'', JStr ''Springfield''), (''limit'', JInt 5)]"

definition springfield_payload :: json where
  "springfield_payload =
     JList [JDict [(''name'', JStr ''Springfield''), (''country'', JStr ''US''),
                   (''state'', JStr ''Illinois''), (''lat'', JFloat ''39.7817''),
                   (''lon'', JFloat ''-89.6501'')]]"

definition world_search :: "json \<Rightarrow> time \<Rightarrow> world" where
  "world_search payload t = \<lparr>t_lookup = t, upstream = Response 200 (Inr payload), t_store = t + 1\<rparr>"

text \<open>
  A current-weather answer with the three fields of the London fixture and an empty
  \<^verbatim>\<open>weather\<close> array.
\<close>

definition world_bad_weather :: world where
  "world_bad_weather =
     \<lparr>t_lookup = 1000,
      upstream = Response 200 (Inr (JDict [(''name'', JStr ''London''),
                                           (''sys'', JDict [(''country'', JStr ''GB'')]),
                                           (''main'', JDict [(''temp'', JFloat ''15.5'')]),
                                           (''weather'', JList [])])),
      t_store = 1001\<rparr>"

text \<open>
  The error text of a missing key.
\<close>

definition nokey_message :: string where
  "nokey_message = ''API key not configured. Please set OPENWEATHER_API_KEY environment variable.''"

text \<open>
  The shape \<^verbatim>\<open>get_current_weather\<close> relies on in a payload \<open>d\<close>: a field it reads
  through \<^verbatim>\<open>.get(k, {}).get(...)\<close> is absent or an object, the field it reads through
  \<^verbatim>\<open>.get(k, [{}])[0].get(...)\<close> is absent or an array that starts with an object, and
  a timestamp field (0 when absent) is one \<^verbatim>\<open>datetime.fromtimestamp\<close> accepts.
\<close>

definition absent_or_object :: "params \<Rightarrow> string \<Rightarrow> bool" where
  "absent_or_object d k =
     (case map_of d k of None \<Rightarrow> True | Some (JDict m) \<Rightarrow> True | Some _ \<Rightarrow> False)"

definition absent_or_first_object :: "params \<Rightarrow> string \<Rightarrow> bool" where
  "absent_or_first_object d k =
     (case map_of d k of
        None \<Rightarrow> True
      | Some (JList (JDict m # xs)) \<Rightarrow> True
      | Some _ \<Rightarrow> False)"

definition timestamp_or_absent :: "env \<Rightarrow> params \<Rightarrow> string \<Rightarrow> bool" where
  "timestamp_or_absent e d k =
     (\<not> isl (fromtimestamp_isoformat e (case map_of d k of None \<Rightarrow> JInt 0 | Some x \<Rightarrow> x)))"

section \<open>The cache key\<close>

lemma filter_key_singleton:
  "distinct (map fst xs) \<Longrightarrow> k \<in> set xs \<Longrightarrow> filter (\<lambda>x. fst k = fst x) xs = [k]"
proof (induction xs)
  case Nil
  then show ?case by simp
next
  case (Cons a xs)
  show ?case
  proof (cases "k = a")
    case True
    have "fst a \<notin> fst ` set xs" using Cons.prems(1) by simp
    then have "\<forall>x\<in>set xs. fst x \<noteq> fst a" by (metis imageI)
    then have "filter (\<lambda>x. fst a = fst x) xs = []" by (auto simp: filter_empty_conv)
    with True show ?thesis by simp
  next
    case False
    with Cons.prems have "k \<in> set xs" "fst a \<noteq> fst k" by force+
    with Cons show ?thesis by auto
  qed
qed

lemma sort_key_fst_perm:
  assumes d: "distinct (map fst p1)" and m: "mset p1 = mset p2"
  shows "sort_key fst p1 = sort_key fst p2"
proof (rule properties_for_sort_key)
  show "mset (sort_key fst p2) = mset p1" using m by simp
  show "sorted (map fst (sort_key fst p2))" by simp
next
  fix k assume k: "k \<in> set (sort_key fst p2)"
  have "mset (map fst (sort_key fst p2)) = mset (map fst p1)" using m by simp
  then have d2: "distinct (map fst (sort_key fst p2))"
    using d by (metis mset_eq_imp_distinct_iff)
  have "k \<in> set p1" using k m by (metis mset_eq_setD set_sort)
  then have "filter (\<lambda>x. fst k = fst x) p1 = [k]"
    using d by (rule filter_key_singleton[rotated])
  moreover have "filter (\<lambda>x. fst k = fst x) (sort_key fst p2) = [k]"
    using d2 k by (rule filter_key_singleton)
  ultimately show
    "filter (\<lambda>x. fst k = fst x) (sort_key fst p2) = filter (\<lambda>x. fst k = fst x) p1"
    by simp
qed

text \<open>
  C1. Two parameter dicts with the same key/value pairs, inserted in different orders,
  get the same cache key for every endpoint: \<^verbatim>\<open>sort_keys=True\<close> writes the items in the
  order of their keys. The keys of a dict are distinct.
\<close>

theorem get_cache_key_permutation:
  assumes "distinct (map fst p1)" and "mset p1 = mset p2"
  shows "get_cache_key e p1 = get_cache_key e p2"
  using sort_key_fst_perm[OF assms] by (simp add: get_cache_key_def)

theorem get_cache_key_permutation_witness:
  "distinct (map fst [(''q'', JStr ''London''), (''units'', JStr ''metric'')])
   \<and> mset [(''q'', JStr ''London''), (''units'', JStr ''metric'')]
       = mset [(''units'', JStr ''metric''), (''q'', JStr ''London'')]
   \<and> get_cache_key BASE_URL [(''q'', JStr ''London''), (''units'', JStr ''metric'')]
       = get_cache_key BASE_URL [(''units'', JStr ''metric''), (''q'', JStr ''London'')]"
proof -
  have d: "distinct (map fst [(''q'', JStr ''London''), (''units'', JStr ''metric'')])"
    by simp
  have m: "mset [(''q'', JStr ''London''), (''units'', JStr ''metric'')]
       = mset [(''units'', JStr ''metric''), (''q'', JStr ''London'')]"
    by (simp add: add.commute)
  show ?thesis using d m get_cache_key_permutation[OF d m, of BASE_URL] by blast
qed

text \<open>The key of one request, written out; without sorting the two orders differ.\<close>

lemma get_cache_key_example:
  "get_cache_key ''u'' [(''units'', JStr ''metric''), (''q'', JStr ''London'')]
   = ''u:{'' @ [CHR 0x22] @ ''q'' @ [CHR 0x22] @ '': '' @ [CHR 0x22] @ ''London'' @ [CHR 0x22]
      @ '', '' @ [CHR 0x22] @ ''units'' @ [CHR 0x22] @ '': '' @ [CHR 0x22] @ ''metric''
      @ [CHR 0x22] @ ''}''"
  by code_simp

lemma json_dumps_unsorted_differs:
  "json_dumps False (JDict [(''units'', JStr ''metric''), (''q'', JStr ''London'')])
   \<noteq> json_dumps False (JDict [(''q'', JStr ''London''), (''units'', JStr ''metric'')])"
  by code_simp

section \<open>Expiry and overwrite\<close>

text \<open>The rounding never takes an age of at least the TTL below it.\<close>

lemma round_half_even_ge: "of_int m \<le> y \<Longrightarrow> m \<le> round_half_even y"
proof -
  assume "of_int m \<le> y"
  then have "m \<le> \<lfloor>y\<rfloor>" by (simp add: le_floor_iff)
  then show ?thesis by (simp add: round_half_even_def Let_def)
qed

lemma double_round_ge_600:
  assumes x: "600 \<le> x"
  shows "600 \<le> double_round x"
proof -
  define e where "e = bitlen \<lfloor>x\<rfloor> - 1"
  define u :: rat where "u = 2 powi (e - 52)"
  define n where "n = round_half_even (x / u)"
  have f: "600 \<le> \<lfloor>x\<rfloor>" using x by (simp add: le_floor_iff)
  have e0: "0 \<le> e" using f bitlen_eq_zero_iff[of "\<lfloor>x\<rfloor>"] bitlen_nonneg[of "\<lfloor>x\<rfloor>"]
    by (simp add: e_def)
  have fl: "floor_log2 x = e" using x by (simp add: floor_log2_def e_def)
  have u0: "0 < u" by (simp add: u_def)
  have r: "double_round x = of_int n * u"
    using x e0 by (simp add: double_round_def fl Let_def u_def n_def max_def)
  have "2 ^ nat (bitlen \<lfloor>x\<rfloor> - 1) \<le> \<lfloor>x\<rfloor>" using bitlen_bounds[of "\<lfloor>x\<rfloor>"] f by simp
  then have "(of_int (2 ^ nat e) :: rat) \<le> of_int \<lfloor>x\<rfloor>"
    unfolding e_def by (simp only: of_int_le_iff)
  also have "\<dots> \<le> x" by simp
  finally have lo: "(2::rat) powi e \<le> x" using e0 by (simp add: power_int_def)
  show ?thesis
  proof (cases "e - 52 \<le> 3")
    case True
    define m :: int where "m = 75 * 2 ^ nat (3 - (e - 52))"
    have "(of_int m :: rat) * u = 75 * (2 powi (3 - (e - 52)) * 2 powi (e - 52))"
      using True by (simp add: m_def u_def power_int_def)
    also have "\<dots> = 75 * 2 powi 3" by (simp add: power_int_add[symmetric])
    finally have mu: "(of_int m :: rat) * u = 600" by simp
    have "of_int m = 600 / u" using mu u0 by (simp add: field_simps)
    also have "\<dots> \<le> x / u" using x u0 by (simp add: divide_right_mono)
    finally have "m \<le> n" unfolding n_def by (rule round_half_even_ge)
    then have "(of_int m :: rat) * u \<le> of_int n * u" using u0 by simp
    then show ?thesis using mu r by simp
  next
    case False
    have pw: "(2::rat) powi 52 * u = 2 powi e"
      using power_int_add[of "2::rat" 52 "e - 52"] by (simp add: u_def)
    then have "(2::rat) powi 52 * u \<le> x" using lo by simp
    then have "of_int (2 ^ 52) \<le> x / u" using u0 by (simp add: field_simps)
    then have "2 ^ 52 \<le> n" unfolding n_def by (rule round_half_even_ge)
    then have "(of_int (2 ^ 52) :: rat) * u \<le> of_int n * u" using u0 by simp
    moreover have "(600::rat) \<le> 2 powi 56" by simp
    moreover have "(2::rat) powi 56 \<le> 2 powi e"
      using False by (intro power_int_increasing) simp_all
    moreover have "(of_int (2 ^ 52) :: rat) * u = 2 powi e" using pw by simp
    ultimately show ?thesis using r by simp
  qed
qed

lemma double_sub_ge_TTL: "CACHE_TTL \<le> a - b \<Longrightarrow> CACHE_TTL \<le> double_sub a b"
  using double_round_ge_600[of "a - b"] by (simp add: double_sub_def CACHE_TTL_def)

text \<open>
  The rounding at some values: a tenth, and the two doubles next below 600 with the
  midpoint between them and 600, which goes to the even one.
\<close>

lemma double_round_samples:
  "double_round (1 / 10) = 3602879701896397 / 2 ^ 55"
  "double_round (600 - 1 / 2 ^ 43) = 600 - 1 / 2 ^ 43"
  "double_round (600 - 1 / 2 ^ 44) = 600"
  "double_round (600 - 3 / 2 ^ 44) = 600 - 1 / 2 ^ 42"
  "double_round (- (1 / 10)) = - (3602879701896397 / 2 ^ 55)"
  by code_simp+

text \<open>The ages of the fixtures.\<close>

lemma double_sub_samples:
  "double_sub 1000 0 = 1000" "double_sub 1300 1001 = 299" "double_sub 1599 1000 = 599"
  by code_simp+

text \<open>
  C3. A read of a key whose entry is at least the TTL old returns \<^verbatim>\<open>None\<close> and deletes
  the entry, leaving every other part of the state alone; after that, a read of the key
  at any time returns \<^verbatim>\<open>None\<close> again and changes nothing.
\<close>

theorem get_cached_expired_purges:
  assumes "cache st k = Some c" and "CACHE_TTL \<le> now - timestamp c"
  shows "get_cached now k st = (None, st\<lparr>cache := (cache st)(k := None)\<rparr>)
         \<and> (\<forall>now'. get_cached now' k (st\<lparr>cache := (cache st)(k := None)\<rparr>)
                      = (None, st\<lparr>cache := (cache st)(k := None)\<rparr>))"
  using assms(1) double_sub_ge_TTL[OF assms(2)] by (simp add: get_cached_def)

theorem get_cached_expired_purges_witness:
  "fst (get_cached 600 ''k'' (set_cache 0 ''k'' 0 initial_state)) = None
   \<and> cache (snd (get_cached 600 ''k'' (set_cache 0 ''k'' 0 initial_state))) ''k'' = None
   \<and> fst (get_cached 601 ''k'' (snd (get_cached 600 ''k'' (set_cache 0 ''k'' 0 initial_state)))) = None"
proof -
  have e: "cache (set_cache 0 ''k'' 0 initial_state) ''k'' = Some \<lparr>data = 0, timestamp = 0\<rparr>"
    by (simp add: set_cache_def)
  have t: "CACHE_TTL \<le> 600 - timestamp \<lparr>data = 0, timestamp = 0\<rparr>"
    by (simp add: CACHE_TTL_def)
  show ?thesis using get_cached_expired_purges[OF e t] by simp
qed

text \<open>
  C4. \<^verbatim>\<open>set_cache\<close> stores the payload object under the key with the time of the store,
  whatever was there before, and touches no other key and no payload; a read of the key
  while less than the TTL has elapsed since the store, as \<^verbatim>\<open>get_cached\<close> measures it
  (the difference of the two clock readings as doubles), returns that same object and
  changes nothing.
\<close>

theorem set_cache_then_get_cached:
  assumes "double_sub now' now < CACHE_TTL"
  shows "get_cached now' k (set_cache now k a st) = (Some a, set_cache now k a st)
         \<and> cache (set_cache now k a st) = (cache st)(k \<mapsto> \<lparr>data = a, timestamp = now\<rparr>)
         \<and> heap (set_cache now k a st) = heap st"
  using assms by (simp add: get_cached_def set_cache_def)

theorem set_cache_then_get_cached_witness:
  "double_sub 1599 1000 < CACHE_TTL
   \<and> fst (get_cached 1599 ''k'' (set_cache 1000 ''k'' 7 (set_cache 3 ''k'' 2 initial_state))) = Some 7"
proof -
  have t: "double_sub 1599 1000 < CACHE_TTL" by (simp add: double_sub_samples CACHE_TTL_def)
  show ?thesis
    using t set_cache_then_get_cached[OF t, of "''k''" 7 "set_cache 3 ''k'' 2 initial_state"]
    by simp
qed

text \<open>
  The boundary: stored \<open>2 ^ -50\<close> seconds after the epoch and read at 600, an entry is
  less than the TTL old, the age the code computes is the TTL, and the read purges it.
\<close>

lemma double_sub_boundary_example:
  "(600 :: time) - 1 / 2 ^ 50 < CACHE_TTL \<and> double_sub 600 (1 / 2 ^ 50) = CACHE_TTL
   \<and> fst (get_cached 600 ''k'' (set_cache (1 / 2 ^ 50) ''k'' 0 initial_state)) = None"
proof -
  have "double_sub 600 (1 / 2 ^ 50) = 600" by code_simp
  then show ?thesis by (simp add: CACHE_TTL_def get_cached_def set_cache_def)
qed

section \<open>The request, branch by branch\<close>

lemma get_cached_frame:
  "heap (snd (get_cached now key st)) = heap st"
  "next_addr (snd (get_cached now key st)) = next_addr st"
  "sent (snd (get_cached now key st)) = sent st"
  by (simp_all add: get_cached_def split: option.splits)

lemma get_cached_cache:
  "cache (snd (get_cached now key st)) =
     (if (\<exists>c. cache st key = Some c \<and> CACHE_TTL \<le> double_sub now (timestamp c))
      then (cache st)(key := None) else cache st)"
  by (auto simp: get_cached_def split: option.splits)

lemma get_cached_hit_iff:
  "(case fst (get_cached now key st) of None \<Rightarrow> False
    | Some a \<Rightarrow> truthy (heap (snd (get_cached now key st)) a)) = cache_hit now key st"
  by (auto simp: get_cached_def cache_hit_def split: option.splits)

lemma make_weather_request_nokey:
  "API_KEY e = [] \<Longrightarrow>
   make_weather_request e w endpoint params st =
     (Inr (Failure ''API key not configured. Please set OPENWEATHER_API_KEY environment variable.'' None), st)"
  by (simp add: make_weather_request_def)

lemma make_weather_request_miss:
  assumes "API_KEY e \<noteq> []" and "\<not> cache_hit (t_lookup w) (get_cache_key endpoint params) st"
  shows "make_weather_request e w endpoint params st =
     (let cache_key = get_cache_key endpoint params;
          st2 = (snd (get_cached (t_lookup w) cache_key st))
                  \<lparr>sent := sent st @ [(endpoint, dict_setitem params ''appid'' (JStr (API_KEY e)))]\<rparr>
      in case upstream w of
           Response status_code body \<Rightarrow>
             if status_code = 200 then
               (case body of
                  Inl msg \<Rightarrow> (Inr (Failure (''Unexpected error: '' @ msg) None), st2)
                | Inr v \<Rightarrow>
                    (Inr (Success (next_addr st)),
                     set_cache (t_store w) cache_key (next_addr st) (snd (new_object v st2))))
             else if status_code = 401 then (Inr (Failure ''Invalid API key'' (Some 401)), st2)
             else if status_code = 404 then (Inr (Failure ''Location not found'' (Some 404)), st2)
             else (Inr (Failure (''API error: '' @ str_int status_code) (Some status_code)), st2)
         | TimeoutException msg \<Rightarrow> (Inr (Failure ''Request timed out'' None), st2)
         | RequestError msg \<Rightarrow> (Inr (Failure (''Request failed: '' @ msg) None), st2)
         | OtherException msg \<Rightarrow> (Inr (Failure (''Unexpected error: '' @ msg) None), st2))"
proof -
  obtain cached st1 where g: "get_cached (t_lookup w) (get_cache_key endpoint params) st = (cached, st1)"
    by (cases "get_cached (t_lookup w) (get_cache_key endpoint params) st")
  have nh: "\<not> (case cached of None \<Rightarrow> False | Some a \<Rightarrow> truthy (heap st1 a))"
    using get_cached_hit_iff[of "t_lookup w" "get_cache_key endpoint params" st] assms(2) g
    by (auto split: option.splits)
  have s: "sent st1 = sent st" "next_addr st1 = next_addr st"
    using get_cached_frame[of "t_lookup w" "get_cache_key endpoint params" st] g by simp_all
  show ?thesis
    using assms(1) nh s g
    by (simp add: make_weather_request_def Let_def new_object_def split: reply.splits sum.splits)
qed

lemma make_weather_request_hit:
  assumes "API_KEY e \<noteq> []"
    and "cache st (get_cache_key endpoint params) = Some c"
    and "double_sub (t_lookup w) (timestamp c) < CACHE_TTL"
    and "truthy (heap st (data c))"
  shows "make_weather_request e w endpoint params st =
     (case py_setitem (heap st (data c)) ''_from_cache'' (JBool True) of
        Inl err \<Rightarrow> (Inl err, st)
      | Inr v \<Rightarrow> (Inr (Success (data c)), st\<lparr>heap := (heap st)(data c := v)\<rparr>))"
  using assms by (simp add: make_weather_request_def get_cached_def Let_def split: sum.splits)

section \<open>Failures\<close>

text \<open>
  C5, as amended. When the API key is missing, or the request goes upstream (no fresh
  truthy entry) and the upstream fails (timeout, network error, another exception, a
  status other than 200, a body that does not parse), \<^verbatim>\<open>make_weather_request\<close> raises
  nothing and returns a failure result with a non-empty message; it stores nothing: no
  payload and no allocation changes, and the cache is the one before the call, but for
  the entry of the request's own key, which the lookup has deleted when it was stale
  (API key present).
\<close>

theorem make_weather_request_failure:
  assumes "API_KEY e = [] \<or>
           (\<not> cache_hit (t_lookup w) (get_cache_key endpoint params) st \<and> upstream_failed (upstream w))"
  shows "\<exists>msg sc.
           fst (make_weather_request e w endpoint params st) = Inr (Failure msg sc) \<and> msg \<noteq> []
           \<and> cache (snd (make_weather_request e w endpoint params st)) =
               (if API_KEY e \<noteq> [] \<and>
                   (\<exists>c. cache st (get_cache_key endpoint params) = Some c
                        \<and> CACHE_TTL \<le> double_sub (t_lookup w) (timestamp c))
                then (cache st)(get_cache_key endpoint params := None) else cache st)
           \<and> heap (snd (make_weather_request e w endpoint params st)) = heap st
           \<and> next_addr (snd (make_weather_request e w endpoint params st)) = next_addr st"
proof (cases "API_KEY e = []")
  case True
  then show ?thesis by (simp add: make_weather_request_nokey)
next
  case False
  with assms have m: "\<not> cache_hit (t_lookup w) (get_cache_key endpoint params) st"
    and u: "upstream_failed (upstream w)" by simp_all
  show ?thesis
    using False u
    by (cases "upstream w")
       (auto simp: make_weather_request_miss[OF False m] Let_def get_cached_frame get_cached_cache
             split: sum.splits)
qed

theorem make_weather_request_failure_witness:
  "\<not> cache_hit (t_lookup world_timeout) (get_cache_key sample_endpoint sample_params) stale_state
   \<and> upstream_failed (upstream world_timeout)
   \<and> fst (make_weather_request env_key world_timeout sample_endpoint sample_params stale_state)
       = Inr (Failure ''Request timed out'' None)
   \<and> heap (snd (make_weather_request env_key world_timeout sample_endpoint sample_params stale_state))
       = heap stale_state"
proof -
  have m: "\<not> cache_hit (t_lookup world_timeout) (get_cache_key sample_endpoint sample_params) stale_state"
    by (simp add: cache_hit_def stale_state_def set_cache_def world_timeout_def CACHE_TTL_def
          double_sub_samples)
  have u: "upstream_failed (upstream world_timeout)" by (simp add: world_timeout_def)
  have k: "API_KEY env_key \<noteq> []" by (simp add: env_key_def)
  have "fst (make_weather_request env_key world_timeout sample_endpoint sample_params stale_state)
       = Inr (Failure ''Request timed out'' None)"
    using make_weather_request_miss[OF k m] by (simp add: world_timeout_def)
  with m u make_weather_request_failure[of env_key world_timeout sample_endpoint sample_params stale_state]
  show ?thesis by simp
qed

text \<open>
  C5 as stated fails: with a stale entry under the request's key and an upstream that
  times out, the call returns a failure and the cache has lost that entry.
\<close>

theorem make_weather_request_failure_cache_counterexample:
  "fst (make_weather_request env_key world_timeout sample_endpoint sample_params stale_state)
     = Inr (Failure ''Request timed out'' None)
   \<and> cache (snd (make_weather_request env_key world_timeout sample_endpoint sample_params stale_state))
       \<noteq> cache stale_state"
proof -
  have m: "\<not> cache_hit (t_lookup world_timeout) (get_cache_key sample_endpoint sample_params) stale_state"
    by (simp add: cache_hit_def stale_state_def set_cache_def world_timeout_def CACHE_TTL_def
          double_sub_samples)
  have k: "API_KEY env_key \<noteq> []" by (simp add: env_key_def)
  have r: "fst (make_weather_request env_key world_timeout sample_endpoint sample_params stale_state)
       = Inr (Failure ''Request timed out'' None)"
    using make_weather_request_miss[OF k m] by (simp add: world_timeout_def)
  have "cache (snd (make_weather_request env_key world_timeout sample_endpoint sample_params stale_state))
          (get_cache_key sample_endpoint sample_params) = None"
    using make_weather_request_miss[OF k m]
    by (simp add: world_timeout_def get_cached_cache stale_state_def set_cache_def CACHE_TTL_def
          double_sub_samples)
  moreover have "cache stale_state (get_cache_key sample_endpoint sample_params) \<noteq> None"
    by (simp add: stale_state_def set_cache_def)
  ultimately show ?thesis using r by metis
qed

text \<open>
  C8. A request that goes upstream (API key present, no fresh truthy entry) classifies
  the upstream's failure: 401 gives "Invalid API key", 404 gives "Location not found",
  every other status but 200 (every other non-2xx status among them) gives "API error:"
  with the status code, all three carrying the code; a timeout gives "Request timed
  out", another request error "Request failed:" with its text, and any other exception,
  that of a body that does not parse included, "Unexpected error:" with its text. Each
  is returned, none raised.
\<close>

theorem make_weather_request_classifies:
  assumes "API_KEY e \<noteq> []"
    and "\<not> cache_hit (t_lookup w) (get_cache_key endpoint params) st"
  shows "(upstream w = Response 401 body \<longrightarrow>
            fst (make_weather_request e w endpoint params st) = Inr (Failure ''Invalid API key'' (Some 401)))
       \<and> (upstream w = Response 404 body \<longrightarrow>
            fst (make_weather_request e w endpoint params st) = Inr (Failure ''Location not found'' (Some 404)))
       \<and> (upstream w = Response sc body \<and> sc \<noteq> 200 \<and> sc \<noteq> 401 \<and> sc \<noteq> 404 \<longrightarrow>
            fst (make_weather_request e w endpoint params st)
              = Inr (Failure (''API error: '' @ str_int sc) (Some sc)))
       \<and> (upstream w = TimeoutException msg \<longrightarrow>
            fst (make_weather_request e w endpoint params st) = Inr (Failure ''Request timed out'' None))
       \<and> (upstream w = RequestError msg \<longrightarrow>
            fst (make_weather_request e w endpoint params st)
              = Inr (Failure (''Request failed: '' @ msg) None))
       \<and> (upstream w = OtherException msg \<longrightarrow>
            fst (make_weather_request e w endpoint params st)
              = Inr (Failure (''Unexpected error: '' @ msg) None))
       \<and> (upstream w = Response 200 (Inl msg) \<longrightarrow>
            fst (make_weather_request e w endpoint params st)
              = Inr (Failure (''Unexpected error: '' @ msg) None))"
  by (simp add: make_weather_request_miss[OF assms] Let_def)

theorem make_weather_request_classifies_witness:
  "API_KEY env_key \<noteq> []
   \<and> \<not> cache_hit 0 (get_cache_key sample_endpoint sample_params) initial_state
   \<and> fst (make_weather_request env_key \<lparr>t_lookup = 0, upstream = Response 503 (Inl []), t_store = 0\<rparr>
            sample_endpoint sample_params initial_state)
       = Inr (Failure ''API error: 503'' (Some 503))
   \<and> fst (make_weather_request env_key \<lparr>t_lookup = 0, upstream = Response 404 (Inl []), t_store = 0\<rparr>
            sample_endpoint sample_params initial_state)
       = Inr (Failure ''Location not found'' (Some 404))"
proof -
  have k: "API_KEY env_key \<noteq> []" by (simp add: env_key_def)
  have m: "\<not> cache_hit 0 (get_cache_key sample_endpoint sample_params) initial_state"
    by (simp add: cache_hit_def initial_state_def)
  have s: "str_int 503 = ''503''" by (simp add: str_int_def digits.simps)
  show ?thesis
    using k m s
      make_weather_request_classifies[of env_key
        "\<lparr>t_lookup = 0, upstream = Response 503 (Inl []), t_store = 0\<rparr>"
        sample_endpoint sample_params initial_state "Inl []" 503 "[]"]
      make_weather_request_classifies[of env_key
        "\<lparr>t_lookup = 0, upstream = Response 404 (Inl []), t_store = 0\<rparr>"
        sample_endpoint sample_params initial_state "Inl []" 404 "[]"]
    by simp
qed

section \<open>Hits and misses\<close>

lemma map_of_dict_setitem: "map_of (dict_setitem d k v) = (map_of d)(k \<mapsto> v)"
  by (induction d) auto

lemma marked_step:
  assumes a: "a < next_addr st"
    and mk: "py_get (heap st a) ''_from_cache'' JNull = Inr (JBool True)"
  shows "a < next_addr (snd (make_weather_request e w endpoint params st))
         \<and> py_get (heap (snd (make_weather_request e w endpoint params st)) a) ''_from_cache'' JNull
             = Inr (JBool True)"
proof (cases "API_KEY e = []")
  case True
  then show ?thesis using a mk by (simp add: make_weather_request_nokey)
next
  case k: False
  show ?thesis
  proof (cases "cache_hit (t_lookup w) (get_cache_key endpoint params) st")
    case True
    then obtain c where c: "cache st (get_cache_key endpoint params) = Some c"
      "double_sub (t_lookup w) (timestamp c) < CACHE_TTL" "truthy (heap st (data c))"
      by (auto simp: cache_hit_def split: option.splits)
    show ?thesis
    proof (cases "data c = a")
      case True
      obtain d where d: "heap st a = JDict d"
        using mk by (cases "heap st a") simp_all
      then show ?thesis
        using a mk True make_weather_request_hit[OF k c, of ]
        by (simp add: map_of_dict_setitem)
    next
      case False
      then show ?thesis
        using a mk make_weather_request_hit[OF k c]
        by (cases "py_setitem (heap st (data c)) ''_from_cache'' (JBool True)") simp_all
    qed
  next
    case False
    show ?thesis
      using a mk make_weather_request_miss[OF k False]
      by (cases "upstream w")
         (auto simp: Let_def get_cached_frame new_object_def set_cache_def split: sum.splits)
  qed
qed

lemma marked_run:
  "a < next_addr st \<Longrightarrow> py_get (heap st a) ''_from_cache'' JNull = Inr (JBool True) \<Longrightarrow>
   py_get (heap (run_requests calls st) a) ''_from_cache'' JNull = Inr (JBool True)"
proof (induction calls arbitrary: st)
  case Nil
  then show ?case by simp
next
  case (Cons call calls)
  obtain e w endpoint params where call: "call = (e, w, endpoint, params)"
    by (cases call) auto
  show ?case
    using Cons.IH marked_step[OF Cons.prems, of e w endpoint params] by (simp add: call)
qed

lemma allocated_step:
  assumes "\<forall>k c. cache st k = Some c \<longrightarrow> data c < next_addr st"
  shows "\<forall>k c. cache (snd (make_weather_request e w endpoint params st)) k = Some c \<longrightarrow>
               data c < next_addr (snd (make_weather_request e w endpoint params st))"
proof (cases "API_KEY e = []")
  case True
  then show ?thesis using assms by (simp add: make_weather_request_nokey)
next
  case k: False
  show ?thesis
  proof (cases "cache_hit (t_lookup w) (get_cache_key endpoint params) st")
    case True
    then obtain c where c: "cache st (get_cache_key endpoint params) = Some c"
      "double_sub (t_lookup w) (timestamp c) < CACHE_TTL" "truthy (heap st (data c))"
      by (auto simp: cache_hit_def split: option.splits)
    show ?thesis
      using assms make_weather_request_hit[OF k c]
      by (cases "py_setitem (heap st (data c)) ''_from_cache'' (JBool True)") simp_all
  next
    case False
    have g: "\<forall>k c. cache (snd (get_cached (t_lookup w) (get_cache_key endpoint params) st)) k = Some c
                \<longrightarrow> data c < next_addr st"
      using assms by (auto simp: get_cached_cache)
    show ?thesis
      using g make_weather_request_miss[OF k False]
      by (cases "upstream w")
         (auto simp: Let_def get_cached_frame new_object_def set_cache_def
               less_Suc_eq split: sum.splits if_splits)
  qed
qed

lemma allocated_run:
  "\<forall>k c. cache st k = Some c \<longrightarrow> data c < next_addr st \<Longrightarrow>
   \<forall>k c. cache (run_requests calls st) k = Some c \<longrightarrow> data c < next_addr (run_requests calls st)"
proof (induction calls arbitrary: st)
  case Nil
  then show ?case by simp
next
  case (Cons call calls)
  obtain e w endpoint params where call: "call = (e, w, endpoint, params)"
    by (cases call) auto
  show ?case using Cons.IH[OF allocated_step[OF Cons.prems]] by (simp add: call)
qed

text \<open>
  In every state the process reaches from its start, the cache refers to allocated
  payloads only.
\<close>

lemma allocated_reachable:
  "cache (run_requests calls initial_state) k = Some c \<Longrightarrow>
   data c < next_addr (run_requests calls initial_state)"
proof -
  have "\<forall>k c. cache initial_state k = Some c \<longrightarrow> data c < next_addr initial_state"
    by (simp add: initial_state_def)
  then show "cache (run_requests calls initial_state) k = Some c \<Longrightarrow>
             data c < next_addr (run_requests calls initial_state)"
    using allocated_run by blast
qed

text \<open>
  The cached branch on a dictionary. With an API key and a fresh entry under the
  request's key whose payload is a non-empty dictionary (allocated, as every payload in
  a reachable state is), \<^verbatim>\<open>make_weather_request\<close> returns the stored payload object
  itself, not a copy, and sets \<^verbatim>\<open>_from_cache\<close> to \<^verbatim>\<open>True\<close> in that object: the payload the entry refers to
  now has the marker, with every other key as before. The cache itself is unchanged,
  so the entry keeps its timestamp; no other payload changes, nothing is allocated and
  nothing is sent upstream. Whatever requests follow, the object keeps the marker.
\<close>

theorem cache_hit_marks_stored_payload:
  assumes "API_KEY e \<noteq> []"
    and "cache st (get_cache_key endpoint params) = Some c"
    and "double_sub (t_lookup w) (timestamp c) < CACHE_TTL"
    and "heap st (data c) = JDict d" and "d \<noteq> []"
    and "data c < next_addr st"
  shows "\<exists>st'. make_weather_request e w endpoint params st = (Inr (Success (data c)), st')
           \<and> heap st' (data c) = JDict (dict_setitem d ''_from_cache'' (JBool True))
           \<and> map_of (dict_setitem d ''_from_cache'' (JBool True)) = (map_of d)(''_from_cache'' \<mapsto> JBool True)
           \<and> cache st' = cache st
           \<and> (\<forall>a. a \<noteq> data c \<longrightarrow> heap st' a = heap st a)
           \<and> next_addr st' = next_addr st \<and> sent st' = sent st
           \<and> (\<forall>calls. py_get (heap (run_requests calls st') (data c)) ''_from_cache'' JNull
                        = Inr (JBool True))"
proof -
  let ?st' = "st\<lparr>heap := (heap st)(data c := JDict (dict_setitem d ''_from_cache'' (JBool True)))\<rparr>"
  have t: "truthy (heap st (data c))" using assms(4,5) by simp
  have r: "make_weather_request e w endpoint params st = (Inr (Success (data c)), ?st')"
    using make_weather_request_hit[OF assms(1,2,3) t] assms(4) by simp
  have mk: "py_get (heap ?st' (data c)) ''_from_cache'' JNull = Inr (JBool True)"
    by (simp add: map_of_dict_setitem)
  have al: "data c < next_addr ?st'" using assms(6) by simp
  have "\<forall>calls. py_get (heap (run_requests calls ?st') (data c)) ''_from_cache'' JNull
                  = Inr (JBool True)"
    using marked_run[OF al mk] by blast
  then show ?thesis using r by (simp add: map_of_dict_setitem)
qed

lemma london_state_simps:
  "cache london_state (get_cache_key sample_endpoint sample_params) = Some \<lparr>data = 0, timestamp = 1001\<rparr>"
  "heap london_state 0 = london_payload"
  "next_addr london_state = 1"
proof -
  have k: "API_KEY env_key \<noteq> []" by (simp add: env_key_def)
  have m: "\<not> cache_hit (t_lookup world_london) (get_cache_key sample_endpoint sample_params) initial_state"
    by (simp add: cache_hit_def initial_state_def)
  note r = make_weather_request_miss[OF k m]
  show "cache london_state (get_cache_key sample_endpoint sample_params) = Some \<lparr>data = 0, timestamp = 1001\<rparr>"
    unfolding london_state_def using r
    by (simp add: world_london_def Let_def new_object_def set_cache_def initial_state_def)
  show "heap london_state 0 = london_payload"
    unfolding london_state_def using r
    by (simp add: world_london_def Let_def new_object_def set_cache_def initial_state_def get_cached_frame)
  show "next_addr london_state = 1"
    unfolding london_state_def using r
    by (simp add: world_london_def Let_def new_object_def set_cache_def initial_state_def get_cached_frame)
qed

theorem cache_hit_marks_stored_payload_witness:
  "API_KEY env_key \<noteq> []
   \<and> cache london_state (get_cache_key sample_endpoint sample_params) = Some \<lparr>data = 0, timestamp = 1001\<rparr>
   \<and> double_sub (t_lookup world_later) 1001 < CACHE_TTL
   \<and> fst (make_weather_request env_key world_later sample_endpoint sample_params london_state)
       = Inr (Success 0)
   \<and> py_get (heap (snd (make_weather_request env_key world_later sample_endpoint sample_params
                          london_state)) 0) ''_from_cache'' JNull = Inr (JBool True)
   \<and> cache (snd (make_weather_request env_key world_later sample_endpoint sample_params london_state))
       = cache london_state"
proof -
  have k: "API_KEY env_key \<noteq> []" by (simp add: env_key_def)
  have c: "cache london_state (get_cache_key sample_endpoint sample_params)
             = Some \<lparr>data = 0, timestamp = 1001\<rparr>"
    by (rule london_state_simps)
  have t: "double_sub (t_lookup world_later) (timestamp \<lparr>data = 0, timestamp = 1001\<rparr>) < CACHE_TTL"
    by (simp add: world_later_def CACHE_TTL_def double_sub_samples)
  have h: "heap london_state (data \<lparr>data = 0, timestamp = 1001\<rparr>) =
     JDict [(''name'', JStr ''London''),
            (''sys'', JDict [(''country'', JStr ''GB''), (''sunrise'', JInt 1697440920),
                             (''sunset'', JInt 1697480100)]),
            (''coord'', JDict [(''lat'', JFloat ''51.5074''), (''lon'', JFloat ''-0.1278'')]),
            (''main'', JDict [(''temp'', JFloat ''15.5''), (''feels_like'', JFloat ''14.2''),
                              (''temp_min'', JFloat ''13.0''), (''temp_max'', JFloat ''17.0''),
                              (''pressure'', JInt 1013), (''humidity'', JInt 72)]),
            (''weather'', JList [JDict [(''description'', JStr ''partly cloudy''),
                                        (''icon'', JStr ''02d'')]]),
            (''wind'', JDict [(''speed'', JFloat ''5.2''), (''deg'', JInt 230)]),
            (''clouds'', JDict [(''all'', JInt 40)]),
            (''visibility'', JInt 10000),
            (''dt'', JInt 1697450000)]"
    by (simp add: london_state_simps london_payload_def)
  have a: "data \<lparr>data = 0, timestamp = 1001\<rparr> < next_addr london_state"
    by (simp add: london_state_simps)
  obtain st' where
    r: "make_weather_request env_key world_later sample_endpoint sample_params london_state
          = (Inr (Success (data \<lparr>data = 0, timestamp = 1001\<rparr>)), st')"
    and c': "cache st' = cache london_state"
    and m: "\<forall>calls. py_get (heap (run_requests calls st') (data \<lparr>data = 0, timestamp = 1001\<rparr>))
                       ''_from_cache'' JNull = Inr (JBool True)"
    using cache_hit_marks_stored_payload[OF k c t h _ a] by auto
  have "py_get (heap (run_requests [] st') 0) ''_from_cache'' JNull = Inr (JBool True)"
    using m by (metis cache_entry.select_convs(1))
  then show ?thesis using k c t r c' by simp
qed

lemma make_weather_request_fetch:
  assumes "API_KEY e \<noteq> []"
    and "\<not> cache_hit (t_lookup w) (get_cache_key endpoint params) st"
    and "upstream w = Response 200 (Inr v)"
  shows "\<exists>st'. make_weather_request e w endpoint params st = (Inr (Success (next_addr st)), st')
           \<and> heap st' = (heap st)(next_addr st := v)
           \<and> next_addr st' = Suc (next_addr st)
           \<and> cache st' = (cache (snd (get_cached (t_lookup w) (get_cache_key endpoint params) st)))
                             (get_cache_key endpoint params
                                \<mapsto> \<lparr>data = next_addr st, timestamp = t_store w\<rparr>)
           \<and> sent st' = sent st @ [(endpoint, dict_setitem params ''appid'' (JStr (API_KEY e)))]"
  using make_weather_request_miss[OF assms(1,2)] assms(3)
  by (simp add: Let_def new_object_def set_cache_def get_cached_frame)

text \<open>
  A request that goes upstream (API key present, no fresh truthy entry) makes exactly
  one upstream call, whatever the upstream does, with \<^verbatim>\<open>appid\<close> added to its
  parameters.
\<close>

theorem miss_sends_one_request:
  assumes "API_KEY e \<noteq> []" and "\<not> cache_hit (t_lookup w) (get_cache_key endpoint params) st"
  shows "sent (snd (make_weather_request e w endpoint params st))
         = sent st @ [(endpoint, dict_setitem params ''appid'' (JStr (API_KEY e)))]"
  using make_weather_request_miss[OF assms]
  by (cases "upstream w")
     (auto simp: Let_def get_cached_frame new_object_def set_cache_def split: sum.splits)

theorem miss_sends_one_request_witness:
  "API_KEY env_key \<noteq> []
   \<and> \<not> cache_hit (t_lookup world_timeout) (get_cache_key sample_endpoint sample_params) stale_state
   \<and> sent (snd (make_weather_request env_key world_timeout sample_endpoint sample_params stale_state))
       = [(sample_endpoint,
           [(''q'', JStr ''London,UK''), (''units'', JStr ''metric''), (''appid'', JStr ''test_key'')])]"
proof -
  have k: "API_KEY env_key \<noteq> []" by (simp add: env_key_def)
  have m: "\<not> cache_hit (t_lookup world_timeout) (get_cache_key sample_endpoint sample_params) stale_state"
    by (simp add: cache_hit_def stale_state_def set_cache_def world_timeout_def CACHE_TTL_def
          double_sub_samples)
  have s: "sent stale_state = []" by (simp add: stale_state_def set_cache_def initial_state_def)
  show ?thesis
    using k m s miss_sends_one_request[OF k m]
    by (simp add: sample_params_def env_key_def)
qed

text \<open>
  A request that goes upstream and gets a 200 with a body that parses returns the new
  payload object and stores it under the request's key with the time of the store: a
  read of the key less than the TTL after the store returns that object, which holds
  the body; no older payload changes.
\<close>

theorem successful_fetch_is_cached:
  assumes "API_KEY e \<noteq> []"
    and "\<not> cache_hit (t_lookup w) (get_cache_key endpoint params) st"
    and "upstream w = Response 200 (Inr v)"
    and "double_sub now (t_store w) < CACHE_TTL"
  shows "fst (make_weather_request e w endpoint params st) = Inr (Success (next_addr st))
       \<and> fst (get_cached now (get_cache_key endpoint params)
                (snd (make_weather_request e w endpoint params st))) = Some (next_addr st)
       \<and> heap (snd (make_weather_request e w endpoint params st)) (next_addr st) = v
       \<and> (\<forall>a. a \<noteq> next_addr st \<longrightarrow>
              heap (snd (make_weather_request e w endpoint params st)) a = heap st a)"
proof -
  obtain st' where r: "make_weather_request e w endpoint params st = (Inr (Success (next_addr st)), st')"
    and h: "heap st' = (heap st)(next_addr st := v)"
    and c: "cache st' = (cache (snd (get_cached (t_lookup w) (get_cache_key endpoint params) st)))
                          (get_cache_key endpoint params
                             \<mapsto> \<lparr>data = next_addr st, timestamp = t_store w\<rparr>)"
    using make_weather_request_fetch[OF assms(1,2,3)] by auto
  show ?thesis using assms(4) by (simp add: r h c get_cached_def)
qed

theorem successful_fetch_is_cached_witness:
  "API_KEY env_key \<noteq> []
   \<and> \<not> cache_hit (t_lookup world_london) (get_cache_key sample_endpoint sample_params) initial_state
   \<and> upstream world_london = Response 200 (Inr london_payload)
   \<and> double_sub 1300 (t_store world_london) < CACHE_TTL
   \<and> fst (make_weather_request env_key world_london sample_endpoint sample_params initial_state)
       = Inr (Success 0)
   \<and> fst (get_cached 1300 (get_cache_key sample_endpoint sample_params)
            (snd (make_weather_request env_key world_london sample_endpoint sample_params
                    initial_state))) = Some 0"
proof -
  have k: "API_KEY env_key \<noteq> []" by (simp add: env_key_def)
  have m: "\<not> cache_hit (t_lookup world_london) (get_cache_key sample_endpoint sample_params) initial_state"
    by (simp add: cache_hit_def initial_state_def)
  have u: "upstream world_london = Response 200 (Inr london_payload)" by (simp add: world_london_def)
  have t: "double_sub 1300 (t_store world_london) < CACHE_TTL"
    by (simp add: world_london_def CACHE_TTL_def double_sub_samples)
  have n: "next_addr initial_state = 0" by (simp add: initial_state_def)
  show ?thesis using k m u t n successful_fetch_is_cached[OF k m u t] by simp
qed

lemma search_first_call:
  "make_weather_request env_key (world_search v 1000) search_endpoint search_params initial_state
   = (Inr (Success 0),
      \<lparr>cache = [get_cache_key search_endpoint search_params \<mapsto> \<lparr>data = 0, timestamp = 1001\<rparr>],
       heap = (\<lambda>a. JNull)(0 := v), next_addr = 1,
       sent = [(search_endpoint, dict_setitem search_params ''appid'' (JStr ''test_key''))]\<rparr>)"
proof -
  have k: "API_KEY env_key \<noteq> []" by (simp add: env_key_def)
  have m: "\<not> cache_hit (t_lookup (world_search v 1000)) (get_cache_key search_endpoint search_params) initial_state"
    by (simp add: cache_hit_def initial_state_def)
  show ?thesis
    using make_weather_request_miss[OF k m]
    by (simp add: world_search_def Let_def new_object_def set_cache_def initial_state_def
          get_cached_def env_key_def)
qed

lemma second_call_raises:
  "cache_fresh 1300 (get_cache_key search_endpoint search_params)
     (snd (make_weather_request env_key (world_search springfield_payload 1000)
             search_endpoint search_params initial_state))
   \<and> fst (make_weather_request env_key (world_search springfield_payload 1300)
            search_endpoint search_params
            (snd (make_weather_request env_key (world_search springfield_payload 1000)
                    search_endpoint search_params initial_state)))
       = Inl TypeError"
  unfolding search_first_call snd_conv
  by (simp add: cache_fresh_def CACHE_TTL_def double_sub_samples make_weather_request_def
        get_cached_def world_search_def env_key_def springfield_payload_def)

lemma search_location_raises:
  "fst (make_weather_request e w (GEO_URL @ ''/direct'')
          [(''q'', JStr query), (''limit'', JInt (min limit 10))] st) = Inl err
   \<Longrightarrow> fst (search_location e w query limit st) = Inl err"
  by (auto simp: search_location_def split: prod.splits sum.splits result.splits)

text \<open>
  C2 at the search fixture. The first \<^verbatim>\<open>search_location("Springfield", 5)\<close> fetches
  the array and caches it. At the second call, 300 seconds later, the entry is fresh;
  the non-empty list is truthy, \<^verbatim>\<open>cached["_from_cache"] = True\<close> raises \<^verbatim>\<open>TypeError\<close>
  outside the \<^verbatim>\<open>try\<close>, and the tool call raises instead of returning the cached
  payload.
\<close>

theorem cached_list_payload_raises:
  "cache_fresh 1300 (get_cache_key search_endpoint search_params)
     (snd (make_weather_request env_key (world_search springfield_payload 1000)
             search_endpoint search_params initial_state))
   \<and> fst (make_weather_request env_key (world_search springfield_payload 1300)
            search_endpoint search_params
            (snd (make_weather_request env_key (world_search springfield_payload 1000)
                    search_endpoint search_params initial_state)))
       = Inl TypeError
   \<and> fst (search_location env_key (world_search springfield_payload 1300) ''Springfield'' 5
          (snd (search_location env_key (world_search springfield_payload 1000) ''Springfield'' 5
                  initial_state)))
   = Inl TypeError"
proof -
  have e: "GEO_URL @ ''/direct'' = search_endpoint" by (simp add: search_endpoint_def)
  have p: "[(''q'', JStr ''Springfield''), (''limit'', JInt 5)] = search_params"
    by (simp add: search_params_def)
  have s: "snd (search_location env_key (world_search springfield_payload 1000) ''Springfield'' 5 initial_state)
           = snd (make_weather_request env_key (world_search springfield_payload 1000)
                    search_endpoint search_params initial_state)"
    by (simp add: search_location_def e p search_first_call)
  have "fst (search_location env_key (world_search springfield_payload 1300) ''Springfield'' 5
          (snd (search_location env_key (world_search springfield_payload 1000) ''Springfield'' 5
                  initial_state))) = Inl TypeError"
    unfolding s
    by (rule search_location_raises) (simp add: e p second_call_raises)
  then show ?thesis using second_call_raises by simp
qed

text \<open>
  C10 at the search fixture. At the second search the request takes the cached branch:
  the entry is fresh and its payload, a non-empty list, is truthy. The assignment of the
  marker raises \<^verbatim>\<open>TypeError\<close>, so the call returns nothing and leaves the state as it
  was: the stored payload is the list the upstream sent, with no marker.
\<close>

theorem list_payload_hit_marks_nothing:
  "cache_hit 1300 (get_cache_key search_endpoint search_params)
     (snd (make_weather_request env_key (world_search springfield_payload 1000)
             search_endpoint search_params initial_state))
   \<and> make_weather_request env_key (world_search springfield_payload 1300)
         search_endpoint search_params
         (snd (make_weather_request env_key (world_search springfield_payload 1000)
                 search_endpoint search_params initial_state))
       = (Inl TypeError,
          snd (make_weather_request env_key (world_search springfield_payload 1000)
                 search_endpoint search_params initial_state))
   \<and> heap (snd (make_weather_request env_key (world_search springfield_payload 1000)
                   search_endpoint search_params initial_state)) 0
       = springfield_payload"
  unfolding search_first_call snd_conv
  by (simp add: cache_hit_def CACHE_TTL_def double_sub_samples make_weather_request_def
        get_cached_def world_search_def env_key_def springfield_payload_def)

text \<open>
  With an empty array as the answer the fresh entry is falsy, and the second call goes
  upstream again.
\<close>

lemma cached_empty_payload_refetched:
  "cache_fresh 1300 (get_cache_key search_endpoint search_params)
     (snd (make_weather_request env_key (world_search (JList []) 1000)
             search_endpoint search_params initial_state))
   \<and> length (sent (snd (make_weather_request env_key (world_search (JList []) 1300)
            search_endpoint search_params
            (snd (make_weather_request env_key (world_search (JList []) 1000)
                    search_endpoint search_params initial_state))))) = 2"
  unfolding search_first_call snd_conv
  by (simp add: cache_fresh_def CACHE_TTL_def double_sub_samples make_weather_request_def
        get_cached_def world_search_def env_key_def Let_def new_object_def set_cache_def)

section \<open>Without an API key\<close>

lemma compare_loop_nokey:
  "API_KEY e = [] \<Longrightarrow>
   compare_loop e ws units i locations comparisons st =
     (Inr (comparisons @
            map (\<lambda>location. JDict [(''location'', JStr location), (''error'', JStr nokey_message)])
              locations), st)"
  by (induction locations arbitrary: i comparisons)
     (simp_all add: make_weather_request_nokey nokey_message_def)

text \<open>
  C6, as amended. With no API key, a call of any tool leaves the state as it is (no
  cache entry, no payload, no upstream call). The five tools that make one request
  return the failure dict with the missing-key message. \<^verbatim>\<open>compare_weather\<close> returns
  its own size error for fewer than 2 or more than 5 locations, and otherwise
  \<^verbatim>\<open>success: True\<close> with one entry per location, each with the missing-key message as
  its error.
\<close>

theorem tools_without_api_key:
  assumes "API_KEY e = []"
  shows "snd (call_tool e ws ct call st) = st
       \<and> fst (call_tool e ws ct call st) =
           (case call of
              CompareWeather locations units \<Rightarrow>
                if length locations < 2 then
                  Inr (failure_dict ''Please provide at least 2 locations to compare'' None)
                else if length locations > 5 then
                  Inr (failure_dict ''Maximum 5 locations allowed for comparison'' None)
                else
                  Inr (JDict [(''success'', JBool True),
                              (''locations'',
                               JList (map (\<lambda>location. JDict [(''location'', JStr location),
                                                               (''error'', JStr nokey_message)])
                                        locations)),
                              (''units'', JStr units),
                              (''comparison_time'', JStr ct)])
            | _ \<Rightarrow> Inr (failure_dict nokey_message None))"
  using assms
  by (cases call)
     (simp_all add: get_current_weather_def get_forecast_def search_location_def
        get_weather_by_coordinates_def get_air_quality_def compare_weather_def
        make_weather_request_nokey compare_loop_nokey nokey_message_def)

theorem tools_without_api_key_witness:
  "API_KEY env_nokey = []
   \<and> call_tool env_nokey (\<lambda>i. world_london) ''2024-01-01T00:00:00''
        (GetCurrentWeather ''London,UK'' ''metric'') initial_state
       = (Inr (failure_dict nokey_message None), initial_state)
   \<and> snd (call_tool env_nokey (\<lambda>i. world_london) ''2024-01-01T00:00:00''
        (CompareWeather [''London,UK'', ''Paris,FR''] ''metric'') initial_state) = initial_state"
proof -
  have k: "API_KEY env_nokey = []" by (simp add: env_nokey_def)
  show ?thesis
    using k
      tools_without_api_key[OF k, of "\<lambda>i. world_london" "''2024-01-01T00:00:00''"
        "GetCurrentWeather ''London,UK'' ''metric''" initial_state]
      tools_without_api_key[OF k, of "\<lambda>i. world_london" "''2024-01-01T00:00:00''"
        "CompareWeather [''London,UK'', ''Paris,FR''] ''metric''" initial_state]
    by (simp add: prod_eq_iff)
qed

text \<open>
  C6 as stated fails: without a key, \<^verbatim>\<open>compare_weather\<close> on two locations returns
  \<^verbatim>\<open>success: True\<close>.
\<close>

theorem compare_weather_without_api_key_counterexample:
  "API_KEY env_nokey = []
   \<and> fst (call_tool env_nokey (\<lambda>i. world_london) ''2024-01-01T00:00:00''
            (CompareWeather [''London,UK'', ''Paris,FR''] ''metric'') initial_state)
       = Inr (JDict [(''success'', JBool True),
                     (''locations'',
                      JList [JDict [(''location'', JStr ''London,UK''), (''error'', JStr nokey_message)],
                             JDict [(''location'', JStr ''Paris,FR''), (''error'', JStr nokey_message)]]),
                     (''units'', JStr ''metric''),
                     (''comparison_time'', JStr ''2024-01-01T00:00:00'')])"
proof -
  have k: "API_KEY env_nokey = []" by (simp add: env_nokey_def)
  show ?thesis
    using k by (simp add: compare_weather_def compare_loop_nokey[OF k] del: compare_loop.simps)
qed

section \<open>The size of a comparison\<close>

text \<open>
  C7. With fewer than 2 or more than 5 locations \<^verbatim>\<open>compare_weather\<close> returns a
  failure dict with a message and leaves the state as it is: no upstream call, no
  cache write. With 2 to 5 locations it is not rejected: its result is never a failure
  dict, and a dict it returns has \<^verbatim>\<open>success: True\<close>.
\<close>

theorem compare_weather_validates_count:
  "(length locations < 2 \<or> 5 < length locations \<longrightarrow>
      (\<exists>msg. msg \<noteq> [] \<and>
         compare_weather e ws ct locations units st = (Inr (failure_dict msg None), st)))
   \<and> (2 \<le> length locations \<and> length locations \<le> 5 \<longrightarrow>
        (\<forall>msg sc. fst (compare_weather e ws ct locations units st) \<noteq> Inr (failure_dict msg sc))
        \<and> (\<forall>r. fst (compare_weather e ws ct locations units st) = Inr r \<longrightarrow>
               py_get r ''success'' JNull = Inr (JBool True)))"
  by (auto simp: compare_weather_def failure_dict_def split: prod.splits sum.splits)

theorem compare_weather_validates_count_witness:
  "length [''London,UK''] < 2
   \<and> (\<exists>msg. msg \<noteq> [] \<and>
         compare_weather env_key (\<lambda>i. world_london) ''2024-01-01T00:00:00'' [''London,UK'']
           ''metric'' initial_state = (Inr (failure_dict msg None), initial_state))
   \<and> 5 < length [''a'', ''b'', ''c'', ''d'', ''e'', ''f'']
   \<and> (\<exists>msg. msg \<noteq> [] \<and>
         compare_weather env_key (\<lambda>i. world_london) ''2024-01-01T00:00:00''
           [''a'', ''b'', ''c'', ''d'', ''e'', ''f''] ''metric'' initial_state
         = (Inr (failure_dict msg None), initial_state))
   \<and> 2 \<le> length [''London,UK'', ''Paris,FR''] \<and> length [''London,UK'', ''Paris,FR''] \<le> 5
   \<and> fst (compare_weather env_key (\<lambda>i. world_london) ''2024-01-01T00:00:00''
            [''London,UK'', ''Paris,FR''] ''metric'' initial_state)
       \<noteq> Inr (failure_dict ''Please provide at least 2 locations to compare'' None)"
  using
    compare_weather_validates_count[of "[''London,UK'']" env_key "\<lambda>i. world_london"
      "''2024-01-01T00:00:00''" "''metric''" initial_state]
    compare_weather_validates_count[of "[''a'', ''b'', ''c'', ''d'', ''e'', ''f'']" env_key
      "\<lambda>i. world_london" "''2024-01-01T00:00:00''" "''metric''" initial_state]
    compare_weather_validates_count[of "[''London,UK'', ''Paris,FR'']" env_key
      "\<lambda>i. world_london" "''2024-01-01T00:00:00''" "''metric''" initial_state]
  by simp

section \<open>The shape of the current weather\<close>

lemma get2_object:
  "map_of d k1 = Some (JDict m) \<Longrightarrow>
   get2 (JDict d) k1 k2 = Inr (case map_of m k2 of Some v \<Rightarrow> v | None \<Rightarrow> JNull)"
  by (simp add: get2_def)

lemma get2_absent_or_object:
  "absent_or_object d k1 \<Longrightarrow> \<exists>v. get2 (JDict d) k1 k2 = Inr v"
  by (auto simp: absent_or_object_def get2_def split: option.splits json.splits)

lemma get_first_absent_or_first_object:
  "absent_or_first_object d k1 \<Longrightarrow> \<exists>v. get_first (JDict d) k1 k2 = Inr v"
  by (auto simp: absent_or_first_object_def get_first_def
           split: option.splits json.splits list.splits)

lemma timestamp_iso_or_absent:
  "timestamp_or_absent e d k \<Longrightarrow>
   \<exists>v. bindE (py_get (JDict d) k (JInt 0)) (timestamp_iso e) = Inr v"
  by (cases "fromtimestamp_isoformat e (case map_of d k of None \<Rightarrow> JInt 0 | Some x \<Rightarrow> x)")
     (auto simp: timestamp_or_absent_def timestamp_iso_def split: option.splits)

text \<open>
  C9, as amended. \<^verbatim>\<open>get_current_weather\<close>, with an API key and no fresh truthy entry
  for the request, on an upstream answer 200 whose payload is an object with
  \<^verbatim>\<open>name == "London"\<close>, \<^verbatim>\<open>sys.country == "GB"\<close> and \<^verbatim>\<open>main.temp == 15.5\<close>, whose
  \<^verbatim>\<open>coord\<close>, \<^verbatim>\<open>wind\<close> and \<^verbatim>\<open>clouds\<close> are absent or objects, whose \<^verbatim>\<open>weather\<close> is
  absent or an array starting with an object, and whose \<^verbatim>\<open>dt\<close>, \<^verbatim>\<open>sys.sunrise\<close> and
  \<^verbatim>\<open>sys.sunset\<close> (0 when absent) \<^verbatim>\<open>datetime.fromtimestamp\<close> accepts, returns a
  dict with \<^verbatim>\<open>success\<close> true, \<^verbatim>\<open>location.name\<close> "London", \<^verbatim>\<open>location.country\<close> "GB"
  and \<^verbatim>\<open>current.temperature\<close> 15.5.
\<close>

theorem get_current_weather_london:
  assumes key: "API_KEY e \<noteq> []"
    and miss: "\<not> cache_hit (t_lookup w)
                 (get_cache_key (BASE_URL @ ''/weather'') [(''q'', JStr location), (''units'', JStr units)]) st"
    and up: "upstream w = Response 200 (Inr (JDict d))"
    and name: "map_of d ''name'' = Some (JStr ''London'')"
    and sys: "map_of d ''sys'' = Some (JDict s)" and country: "map_of s ''country'' = Some (JStr ''GB'')"
    and main: "map_of d ''main'' = Some (JDict m)" and temp: "map_of m ''temp'' = Some (JFloat ''15.5'')"
    and objs: "absent_or_object d ''coord''" "absent_or_object d ''wind''" "absent_or_object d ''clouds''"
    and weather: "absent_or_first_object d ''weather''"
    and times: "timestamp_or_absent e d ''dt''" "timestamp_or_absent e s ''sunrise''"
      "timestamp_or_absent e s ''sunset''"
  shows "\<exists>r. fst (get_current_weather e w location units st) = Inr r
           \<and> py_get r ''success'' JNull = Inr (JBool True)
           \<and> get2 r ''location'' ''name'' = Inr (JStr ''London'')
           \<and> get2 r ''location'' ''country'' = Inr (JStr ''GB'')
           \<and> get2 r ''current'' ''temperature'' = Inr (JFloat ''15.5'')"
proof -
  let ?data = "JDict d"
  obtain st' where r: "make_weather_request e w (BASE_URL @ ''/weather'')
                         [(''q'', JStr location), (''units'', JStr units)] st
                       = (Inr (Success (next_addr st)), st')"
    and h: "heap st' (next_addr st) = ?data"
    using make_weather_request_fetch[OF key miss up] by auto
  obtain lat lon where c: "get2 ?data ''coord'' ''lat'' = Inr lat" "get2 ?data ''coord'' ''lon'' = Inr lon"
    using get2_absent_or_object[OF objs(1)] by metis
  obtain speed deg where wi: "get2 ?data ''wind'' ''speed'' = Inr speed" "get2 ?data ''wind'' ''deg'' = Inr deg"
    using get2_absent_or_object[OF objs(2)] by metis
  obtain clouds where cl: "get2 ?data ''clouds'' ''all'' = Inr clouds"
    using get2_absent_or_object[OF objs(3)] by metis
  obtain descr icon where we: "get_first ?data ''weather'' ''description'' = Inr descr"
      "get_first ?data ''weather'' ''icon'' = Inr icon"
    using get_first_absent_or_first_object[OF weather] by metis
  obtain ts where ts: "bindE (py_get ?data ''dt'' (JInt 0)) (timestamp_iso e) = Inr ts"
    using timestamp_iso_or_absent[OF times(1)] by metis
  obtain sr where sr: "bindE (py_get (JDict s) ''sunrise'' (JInt 0)) (timestamp_iso e) = Inr sr"
    using timestamp_iso_or_absent[OF times(2)] by metis
  obtain ss where ss: "bindE (py_get (JDict s) ''sunset'' (JInt 0)) (timestamp_iso e) = Inr ss"
    using timestamp_iso_or_absent[OF times(3)] by metis
  have mn: "\<And>k. get2 ?data ''main'' k = Inr (case map_of m k of Some v \<Rightarrow> v | None \<Rightarrow> JNull)"
    by (rule get2_object[OF main])
  have sy: "get2 ?data ''sys'' ''country'' = Inr (JStr ''GB'')"
    by (simp add: get2_object[OF sys] country)
  have sy2: "py_get ?data ''sys'' (JDict []) = Inr (JDict s)" by (simp add: sys)
  have nm: "py_get ?data ''name'' JNull = Inr (JStr ''London'')" by (simp add: name)
  have vis: "\<exists>v. py_get ?data ''visibility'' JNull = Inr v" by simp
  then obtain v where v: "py_get ?data ''visibility'' JNull = Inr v" ..
  show ?thesis
    unfolding get_current_weather_def Let_def r prod.case sum.case result.case h fst_conv
    unfolding c wi cl we ts sr ss mn sy sy2 nm v bindE.simps
    by (simp add: dict_display_def get2_def temp)
qed

text \<open>
  The test suite's London fixture, shaped in full.
\<close>

lemma get_current_weather_london_example:
  "fst (get_current_weather env_key world_london ''London,UK'' ''metric'' initial_state)
   = Inr (JDict
       [(''success'', JBool True),
        (''location'', JDict [(''name'', JStr ''London''), (''country'', JStr ''GB''),
           (''coordinates'', JDict [(''latitude'', JFloat ''51.5074''),
                                    (''longitude'', JFloat ''-0.1278'')])]),
        (''current'', JDict [(''temperature'', JFloat ''15.5''), (''feels_like'', JFloat ''14.2''),
           (''temp_min'', JFloat ''13.0''), (''temp_max'', JFloat ''17.0''),
           (''pressure'', JInt 1013), (''humidity'', JInt 72),
           (''description'', JStr ''partly cloudy''), (''icon'', JStr ''02d''),
           (''wind'', JDict [(''speed'', JFloat ''5.2''), (''direction'', JInt 230)]),
           (''clouds'', JInt 40), (''visibility'', JInt 10000)]),
        (''timestamp'', JStr ''1697450000''),
        (''sunrise'', JStr ''1697440920''),
        (''sunset'', JStr ''1697480100''),
        (''units'', JStr ''metric'')])"
proof -
  have k: "API_KEY env_key \<noteq> []" by (simp add: env_key_def)
  have m: "\<not> cache_hit (t_lookup world_london)
             (get_cache_key (BASE_URL @ ''/weather'')
                [(''q'', JStr ''London,UK''), (''units'', JStr ''metric'')]) initial_state"
    by (simp add: cache_hit_def initial_state_def)
  have u: "upstream world_london = Response 200 (Inr london_payload)"
    by (simp add: world_london_def)
  have n: "next_addr initial_state = 0" by (simp add: initial_state_def)
  have t: "str_int 1697450000 = ''1697450000''" "str_int 1697440920 = ''1697440920''"
    "str_int 1697480100 = ''1697480100''"
    by (simp_all add: str_int_def digits.simps)
  obtain st' where r: "make_weather_request env_key world_london (BASE_URL @ ''/weather'')
                         [(''q'', JStr ''London,UK''), (''units'', JStr ''metric'')] initial_state
                       = (Inr (Success 0), st')"
    and h: "heap st' 0 = london_payload"
    using make_weather_request_fetch[OF k m u] n by auto
  show ?thesis
    unfolding get_current_weather_def Let_def r prod.case sum.case result.case h fst_conv
    by (simp add: london_payload_def dict_display_def get2_def get_first_def timestamp_iso_def
          env_key_def sample_isoformat_def t)
qed

theorem get_current_weather_london_witness:
  "API_KEY env_key \<noteq> []
   \<and> \<not> cache_hit (t_lookup world_london)
         (get_cache_key (BASE_URL @ ''/weather'')
            [(''q'', JStr ''London,UK''), (''units'', JStr ''metric'')]) initial_state
   \<and> upstream world_london = Response 200 (Inr london_payload)
   \<and> (\<exists>r. fst (get_current_weather env_key world_london ''London,UK'' ''metric'' initial_state) = Inr r
           \<and> py_get r ''success'' JNull = Inr (JBool True)
           \<and> get2 r ''location'' ''name'' = Inr (JStr ''London'')
           \<and> get2 r ''location'' ''country'' = Inr (JStr ''GB'')
           \<and> get2 r ''current'' ''temperature'' = Inr (JFloat ''15.5''))"
proof -
  let ?s = "[(''country'', JStr ''GB''), (''sunrise'', JInt 1697440920), (''sunset'', JInt 1697480100)]"
  let ?m = "[(''temp'', JFloat ''15.5''), (''feels_like'', JFloat ''14.2''),
             (''temp_min'', JFloat ''13.0''), (''temp_max'', JFloat ''17.0''),
             (''pressure'', JInt 1013), (''humidity'', JInt 72)]"
  let ?d = "[(''name'', JStr ''London''), (''sys'', JDict ?s),
            (''coord'', JDict [(''lat'', JFloat ''51.5074''), (''lon'', JFloat ''-0.1278'')]),
            (''main'', JDict ?m),
            (''weather'', JList [JDict [(''description'', JStr ''partly cloudy''),
                                        (''icon'', JStr ''02d'')]]),
            (''wind'', JDict [(''speed'', JFloat ''5.2''), (''deg'', JInt 230)]),
            (''clouds'', JDict [(''all'', JInt 40)]),
            (''visibility'', JInt 10000),
            (''dt'', JInt 1697450000)]"
  have k: "API_KEY env_key \<noteq> []" by (simp add: env_key_def)
  have m: "\<not> cache_hit (t_lookup world_london)
             (get_cache_key (BASE_URL @ ''/weather'')
                [(''q'', JStr ''London,UK''), (''units'', JStr ''metric'')]) initial_state"
    by (simp add: cache_hit_def initial_state_def)
  have u: "upstream world_london = Response 200 (Inr (JDict ?d))"
    by (simp add: world_london_def london_payload_def)
  have u': "upstream world_london = Response 200 (Inr london_payload)"
    by (simp add: world_london_def)
  have 1: "map_of ?d ''name'' = Some (JStr ''London'')" by simp
  have 2: "map_of ?d ''sys'' = Some (JDict ?s)" by simp
  have 3: "map_of ?s ''country'' = Some (JStr ''GB'')" by simp
  have 4: "map_of ?d ''main'' = Some (JDict ?m)" by simp
  have 5: "map_of ?m ''temp'' = Some (JFloat ''15.5'')" by simp
  have 6: "absent_or_object ?d ''coord''" "absent_or_object ?d ''wind''"
    "absent_or_object ?d ''clouds''"
    by (simp_all add: absent_or_object_def)
  have 7: "absent_or_first_object ?d ''weather''" by (simp add: absent_or_first_object_def)
  have 8: "timestamp_or_absent env_key ?d ''dt''" "timestamp_or_absent env_key ?s ''sunrise''"
    "timestamp_or_absent env_key ?s ''sunset''"
    by (simp_all add: timestamp_or_absent_def env_key_def sample_isoformat_def)
  show ?thesis
    using k m u' get_current_weather_london[OF k m u 1 2 3 4 5 6 7 8] by blast
qed

text \<open>
  C9 as stated fails: a payload with the three fields and an empty \<^verbatim>\<open>weather\<close>
  array makes \<^verbatim>\<open>data.get("weather", [{}])[0]\<close> raise \<^verbatim>\<open>IndexError\<close>.
\<close>

theorem get_current_weather_empty_weather_counterexample:
  "fst (get_current_weather env_key world_bad_weather ''London,UK'' ''metric'' initial_state)
   = Inl IndexError"
proof -
  have k: "API_KEY env_key \<noteq> []" by (simp add: env_key_def)
  have m: "\<not> cache_hit (t_lookup world_bad_weather)
             (get_cache_key (BASE_URL @ ''/weather'')
                [(''q'', JStr ''London,UK''), (''units'', JStr ''metric'')]) initial_state"
    by (simp add: cache_hit_def initial_state_def)
  show ?thesis
    unfolding get_current_weather_def Let_def
    using make_weather_request_miss[OF k m]
    by (simp add: world_bad_weather_def Let_def new_object_def set_cache_def get_cached_frame
          initial_state_def get_cached_def dict_display_def get2_def get_first_def)
qed

end
